theory Spec2Isabelle
  imports Complex_Main "HOL-Library.Log_Nat" "HOL-Library.Word"
begin


section \<open>JavaScript numbers\<close>

text \<open>
  The client computes with JavaScript numbers: IEEE 754 binary64 values. A finite value
  is kept as the rational it denotes; every arithmetic result is rounded to the nearest
  binary64 value, ties to even, by \<open>fl64\<close>. The sign of zero is not kept (no
  operation of this program tells \<open>-0\<close> from \<open>0\<close>).
\<close>

datatype jsnum = NaN | NegInf | Num rat | PosInf

definition pow2 :: "int \<Rightarrow> rat" where
  "pow2 e = (if 0 \<le> e then 2 ^ nat e else 1 / 2 ^ nat (- e))"

definition pow10 :: "int \<Rightarrow> rat" where
  "pow10 e = (if 0 \<le> e then 10 ^ nat e else 1 / 10 ^ nat (- e))"

definition round_half_even :: "rat \<Rightarrow> int" where
  "round_half_even q =
     (let f = \<lfloor>q\<rfloor>; r = q - of_int f
      in if r < 1 / 2 then f
         else if 1 / 2 < r then f + 1
         else if even f then f else f + 1)"

definition ilog2 :: "rat \<Rightarrow> int" where
  \<comment> \<open>\<open>\<lfloor>log\<^sub>2 a\<rfloor>\<close> for \<open>a > 0\<close>, from the bit lengths of numerator and denominator\<close>
  "ilog2 a =
     (let (p, q) = quotient_of a; d = bitlen p - bitlen q
      in if pow2 d \<le> a then d else d - 1)"

definition fl64 :: "rat \<Rightarrow> jsnum" where
  \<comment> \<open>\<open>e\<close> is the binary exponent (at least that of the subnormals), \<open>u\<close> the spacing of
      binary64 values there, \<open>m\<close> the rounded significand; the value overflows when it
      reaches \<open>2\<^sup>1\<^sup>0\<^sup>2\<^sup>4\<close>\<close>
  "fl64 x =
     (if x = 0 then Num 0
      else
        let a = \<bar>x\<bar>;
            e = max (ilog2 a) (- 1022);
            u = pow2 (e - 52);
            m = round_half_even (a / u)
        in if 1023 < e \<or> (e = 1023 \<and> 2 ^ 53 \<le> m) then (if x < 0 then NegInf else PosInf)
           else Num (if x < 0 then - (of_int m * u) else of_int m * u))"

definition js_mul :: "jsnum \<Rightarrow> jsnum \<Rightarrow> jsnum" where
  "js_mul a b =
     (case (a, b) of
        (NaN, _) \<Rightarrow> NaN
      | (_, NaN) \<Rightarrow> NaN
      | (Num x, Num y) \<Rightarrow> fl64 (x * y)
      | (Num x, PosInf) \<Rightarrow> (if x = 0 then NaN else if 0 < x then PosInf else NegInf)
      | (Num x, NegInf) \<Rightarrow> (if x = 0 then NaN else if 0 < x then NegInf else PosInf)
      | (PosInf, Num y) \<Rightarrow> (if y = 0 then NaN else if 0 < y then PosInf else NegInf)
      | (NegInf, Num y) \<Rightarrow> (if y = 0 then NaN else if 0 < y then NegInf else PosInf)
      | (PosInf, PosInf) \<Rightarrow> PosInf
      | (NegInf, NegInf) \<Rightarrow> PosInf
      | (PosInf, NegInf) \<Rightarrow> NegInf
      | (NegInf, PosInf) \<Rightarrow> NegInf)"

definition js_gt :: "jsnum \<Rightarrow> jsnum \<Rightarrow> bool" where
  \<comment> \<open>the operator \<open>a > b\<close>: false as soon as one side is NaN\<close>
  "js_gt a b =
     (case (a, b) of
        (NaN, _) \<Rightarrow> False
      | (_, NaN) \<Rightarrow> False
      | (Num x, Num y) \<Rightarrow> y < x
      | (PosInf, PosInf) \<Rightarrow> False
      | (PosInf, _) \<Rightarrow> True
      | (_, NegInf) \<Rightarrow> (a \<noteq> NegInf)
      | (_, _) \<Rightarrow> False)"

definition js_le :: "jsnum \<Rightarrow> jsnum \<Rightarrow> bool" where
  \<comment> \<open>the operator \<open>a <= b\<close>\<close>
  "js_le a b =
     (case (a, b) of
        (NaN, _) \<Rightarrow> False
      | (_, NaN) \<Rightarrow> False
      | (Num x, Num y) \<Rightarrow> x \<le> y
      | (NegInf, _) \<Rightarrow> True
      | (_, PosInf) \<Rightarrow> True
      | (_, _) \<Rightarrow> False)"

definition js_truthy :: "jsnum \<Rightarrow> bool" where
  "js_truthy a = (a \<noteq> NaN \<and> a \<noteq> Num 0)"

definition js_neg :: "jsnum \<Rightarrow> jsnum" where
  "js_neg a = (case a of NaN \<Rightarrow> NaN | NegInf \<Rightarrow> PosInf | PosInf \<Rightarrow> NegInf | Num x \<Rightarrow> Num (- x))"

definition js_isNaN :: "jsnum \<Rightarrow> bool" where
  "js_isNaN a = (a = NaN)"

definition js_pow10 :: "jsnum \<Rightarrow> jsnum" where
  \<comment> \<open>\<open>10 ** d\<close>. The exponent is always the result of \<open>parseInt\<close>, an integer or
      NaN; a finite exponent is read through its floor. The power is taken as correctly
      rounded, which it is in every engine for the exactly representable \<open>10\<^sup>0 .. 10\<^sup>2\<^sup>2\<close>.\<close>
  "js_pow10 d =
     (case d of NaN \<Rightarrow> NaN | PosInf \<Rightarrow> PosInf | NegInf \<Rightarrow> Num 0 | Num q \<Rightarrow> fl64 (pow10 \<lfloor>q\<rfloor>))"

datatype js_error =
    RangeError
  | TypeError
  | Error string
  | AggregatorError
  | DatabaseError
  | RpcError

definition BigInt :: "jsnum \<Rightarrow> js_error + int" where
  \<comment> \<open>\<open>BigInt(x)\<close> of a number: a RangeError unless \<open>x\<close> is an integer\<close>
  "BigInt a =
     (case a of
        Num q \<Rightarrow> (if of_int \<lfloor>q\<rfloor> = q then Inr \<lfloor>q\<rfloor> else Inl RangeError)
      | _ \<Rightarrow> Inl RangeError)"

definition Number_of_bigint :: "int \<Rightarrow> jsnum" where
  \<comment> \<open>\<open>Number(n)\<close> of a BigInt\<close>
  "Number_of_bigint n = fl64 (of_int n)"

section \<open>JavaScript strings to numbers\<close>

text \<open>
  \<open>parseFloat\<close>, \<open>parseInt\<close> and \<open>Number\<close> on strings, after ECMAScript
  (\<open>StrDecimalLiteral\<close>, \<open>StringToNumber\<close>). Strings are ASCII; of the white space
  characters the ASCII ones are recognised.
\<close>

definition is_space :: "char \<Rightarrow> bool" where
  "is_space c = (c \<in> set [CHR 0x09, CHR 0x0A, CHR 0x0B, CHR 0x0C, CHR 0x0D, CHR 0x20])"

definition is_digit :: "char \<Rightarrow> bool" where
  "is_digit c = (c \<in> set ''0123456789'')"

definition is_upper :: "char \<Rightarrow> bool" where
  "is_upper c = (c \<in> set ''ABCDEFGHIJKLMNOPQRSTUVWXYZ'')"

definition is_lower :: "char \<Rightarrow> bool" where
  "is_lower c = (c \<in> set ''abcdefghijklmnopqrstuvwxyz'')"

definition digit_val :: "char \<Rightarrow> int" where
  "digit_val c = of_char c - 48"

definition digits_val :: "string \<Rightarrow> int" where
  "digits_val ds = foldl (\<lambda>n c. 10 * n + digit_val c) 0 ds"

definition trimStart :: "string \<Rightarrow> string" where
  "trimStart s = dropWhile is_space s"

definition trim :: "string \<Rightarrow> string" where
  "trim s = rev (dropWhile is_space (rev (dropWhile is_space s)))"

definition exponent_part :: "string \<Rightarrow> int \<times> string" where
  \<comment> \<open>\<open>ExponentPart\<close>, when present: its value and what follows it\<close>
  "exponent_part r =
     (case r of
        [] \<Rightarrow> (0, r)
      | c # r1 \<Rightarrow>
          if c = CHR ''e'' \<or> c = CHR ''E'' then
            (let (neg, r2) =
                   (case r1 of
                      [] \<Rightarrow> (False, r1)
                    | s # r' \<Rightarrow>
                        if s = CHR ''-'' then (True, r')
                        else if s = CHR ''+'' then (False, r') else (False, r1));
                 ds = takeWhile is_digit r2
             in if ds = [] then (0, r)
                else (if neg then - digits_val ds else digits_val ds,
                      dropWhile is_digit r2))
          else (0, r))"

definition str_unsigned_decimal_literal :: "string \<Rightarrow> (jsnum \<times> string) option" where
  \<comment> \<open>the longest prefix that is a \<open>StrUnsignedDecimalLiteral\<close>: its value and the rest\<close>
  "str_unsigned_decimal_literal s =
     (if take 8 s = ''Infinity'' then Some (PosInf, drop 8 s)
      else
        let ip = takeWhile is_digit s;
            r1 = dropWhile is_digit s;
            (fp, r2) =
              (case r1 of
                 [] \<Rightarrow> ([], r1)
               | c # r \<Rightarrow>
                   if c = CHR ''.'' then (takeWhile is_digit r, dropWhile is_digit r)
                   else ([], r1))
        in if ip = [] \<and> fp = [] then None
           else
             let (ex, r3) = exponent_part r2
             in Some (fl64 (of_int (digits_val (ip @ fp)) * pow10 (ex - int (length fp))), r3))"

definition str_decimal_literal :: "string \<Rightarrow> (jsnum \<times> string) option" where
  "str_decimal_literal s =
     (case s of
        [] \<Rightarrow> None
      | c # r \<Rightarrow>
          if c = CHR ''-'' then
            (case str_unsigned_decimal_literal r of
               None \<Rightarrow> None
             | Some (v, rest) \<Rightarrow> Some (js_neg v, rest))
          else if c = CHR ''+'' then str_unsigned_decimal_literal r
          else str_unsigned_decimal_literal s)"

definition parseFloat :: "string \<Rightarrow> jsnum" where
  "parseFloat str =
     (case str_decimal_literal (trimStart str) of
        None \<Rightarrow> NaN
      | Some (v, _) \<Rightarrow> v)"

definition hex_val :: "char \<Rightarrow> int option" where
  "hex_val c =
     (if is_digit c then Some (digit_val c)
      else if c \<in> set ''abcdef'' then Some (of_char c - 87)
      else if c \<in> set ''ABCDEF'' then Some (of_char c - 55)
      else None)"

definition radix_val :: "int \<Rightarrow> string \<Rightarrow> int" where
  "radix_val R ds = foldl (\<lambda>n c. R * n + (case hex_val c of None \<Rightarrow> 0 | Some v \<Rightarrow> v)) 0 ds"

definition in_radix :: "int \<Rightarrow> char \<Rightarrow> bool" where
  "in_radix R c = (case hex_val c of None \<Rightarrow> False | Some v \<Rightarrow> v < R)"

definition parseInt :: "string \<Rightarrow> jsnum" where
  \<comment> \<open>\<open>parseInt(str)\<close> with no radix argument\<close>
  "parseInt str =
     (let s0 = trimStart str;
          (neg, s1) =
            (case s0 of
               [] \<Rightarrow> (False, s0)
             | c # r \<Rightarrow>
                 if c = CHR ''-'' then (True, r)
                 else if c = CHR ''+'' then (False, r) else (False, s0));
          (R, s2) =
            (if take 2 s1 = ''0x'' \<or> take 2 s1 = ''0X'' then (16, drop 2 s1) else (10, s1));
          ds = takeWhile (in_radix R) s2
      in if ds = [] then NaN
         else if neg then js_neg (fl64 (of_int (radix_val R ds)))
         else fl64 (of_int (radix_val R ds)))"

definition non_decimal_literal :: "string \<Rightarrow> jsnum option" where
  \<comment> \<open>\<open>0x..\<close>, \<open>0o..\<close>, \<open>0b..\<close>: the whole string, unsigned\<close>
  "non_decimal_literal s =
     (case s of
        z # x # ds \<Rightarrow>
          if z = CHR ''0'' \<and> ds \<noteq> [] then
            (let R = (if x = CHR ''x'' \<or> x = CHR ''X'' then 16
                      else if x = CHR ''o'' \<or> x = CHR ''O'' then 8
                      else if x = CHR ''b'' \<or> x = CHR ''B'' then 2 else (0::int))
             in if R \<noteq> 0 \<and> list_all (in_radix R) ds
                then Some (fl64 (of_int (radix_val R ds))) else None)
          else None
      | _ \<Rightarrow> None)"

definition Number_of_string :: "string \<Rightarrow> jsnum" where
  \<comment> \<open>\<open>Number(str)\<close>: the whole trimmed string must be a numeric literal; empty is 0\<close>
  "Number_of_string str =
     (let s = trim str
      in if s = [] then Num 0
         else case non_decimal_literal s of
                Some v \<Rightarrow> v
              | None \<Rightarrow>
                  (case str_decimal_literal s of
                     Some (v, []) \<Rightarrow> v
                   | _ \<Rightarrow> NaN))"

section \<open>The token minting pipeline (\<open>createSPLToken\<close>)\<close>

text \<open>
  A public key is identified with its base58 text, which is what \<open>toString()\<close> gives
  and what \<open>new PublicKey(text)\<close> reads back. What the vendor SDK and the network
  decide is a parameter of the model: which texts are well-formed keys, the rent-exempt
  minimum the RPC node reports, the derivation of associated token addresses, and what
  the SDK's instruction builders do with a number that the instruction cannot hold.

  The token program's instructions carry the decimals of a mint in one byte and an amount
  in an unsigned 64-bit integer, and the builders are called with JavaScript numbers. A
  number that is an integer of the field's range is written as it is. Any other number
  is handed to the SDK's byte writer, which throws or writes some other value depending
  on the writer in use: \<open>u8_out_of_range\<close> and \<open>u64_out_of_range\<close> stand for it.
\<close>

datatype PublicKey = PublicKey (toString: string)

record solana_env =
  valid_key :: "string \<Rightarrow> bool"
  getMinimumBalanceForRentExemptMint :: "js_error + nat"
  getAssociatedTokenAddress :: "PublicKey \<Rightarrow> PublicKey \<Rightarrow> js_error + PublicKey"
  u8_out_of_range :: "jsnum \<Rightarrow> js_error + 8 word"
  u64_out_of_range :: "jsnum \<Rightarrow> js_error + 64 word"

definition new_PublicKey :: "solana_env \<Rightarrow> string \<Rightarrow> js_error + PublicKey" where
  "new_PublicKey env s =
     (if valid_key env s then Inr (PublicKey s) else Inl (Error ''Invalid public key input''))"

datatype mint_authority = keep | transfer

record TokenFormData =
  tokenName :: string
  tokenSymbol :: string
  tokenDescription :: "string option"
  tokenSupply :: string
  tokenDecimals :: string
  mintAuthority :: mint_authority
  recipientAddress :: string
  freezeAuthority :: bool

datatype AuthorityType = MintTokens | FreezeAccount | AccountOwner | CloseAccount

datatype instruction =
    SystemProgram_createAccount PublicKey PublicKey nat nat PublicKey
      \<comment> \<open>fromPubkey, newAccountPubkey, space, lamports, programId\<close>
  | InitializeMint PublicKey "8 word" PublicKey "PublicKey option"
      \<comment> \<open>mint, decimals, mint authority, freeze authority\<close>
  | CreateAssociatedTokenAccount PublicKey PublicKey PublicKey PublicKey
      \<comment> \<open>payer, associated token address, owner, mint\<close>
  | MintTo PublicKey PublicKey PublicKey "64 word"
      \<comment> \<open>mint, destination, authority, amount\<close>
  | SetAuthority PublicKey PublicKey AuthorityType "PublicKey option"
      \<comment> \<open>account, current authority, authority type, new authority\<close>

definition MINT_SIZE :: nat where
  "MINT_SIZE = 82"

definition TOKEN_PROGRAM_ID :: PublicKey where
  "TOKEN_PROGRAM_ID = PublicKey ''TokenkegQfeZyiNwAJbNbGKPFXCWuBvf9Ss623VQ5DA''"

definition integer_below :: "int \<Rightarrow> jsnum \<Rightarrow> int option" where
  \<comment> \<open>the integer that a number is, when it is one of \<open>0 .. b - 1\<close>\<close>
  "integer_below b x =
     (case x of
        Num q \<Rightarrow> (if of_int \<lfloor>q\<rfloor> = q \<and> 0 \<le> \<lfloor>q\<rfloor> \<and> \<lfloor>q\<rfloor> < b then Some \<lfloor>q\<rfloor> else None)
      | _ \<Rightarrow> None)"

definition createInitializeMintInstruction ::
  "solana_env \<Rightarrow> PublicKey \<Rightarrow> jsnum \<Rightarrow> PublicKey \<Rightarrow> PublicKey option \<Rightarrow> js_error + instruction" where
  \<comment> \<open>\<open>createInitializeMintInstruction(mint, decimals, mintAuthority, freezeAuthority)\<close>\<close>
  "createInitializeMintInstruction env mint decimals mintAuthority' freezeAuthority' =
     (case integer_below (2 ^ 8) decimals of
        Some d \<Rightarrow> Inr (InitializeMint mint (word_of_int d) mintAuthority' freezeAuthority')
      | None \<Rightarrow>
          (case u8_out_of_range env decimals of
             Inl e \<Rightarrow> Inl e
           | Inr d \<Rightarrow> Inr (InitializeMint mint d mintAuthority' freezeAuthority')))"

definition createMintToInstruction ::
  "solana_env \<Rightarrow> PublicKey \<Rightarrow> PublicKey \<Rightarrow> PublicKey \<Rightarrow> jsnum \<Rightarrow> js_error + instruction" where
  \<comment> \<open>\<open>createMintToInstruction(mint, destination, authority, amount)\<close>\<close>
  "createMintToInstruction env mint destination authority amount =
     (case integer_below (2 ^ 64) amount of
        Some a \<Rightarrow> Inr (MintTo mint destination authority (word_of_int a))
      | None \<Rightarrow>
          (case u64_out_of_range env amount of
             Inl e \<Rightarrow> Inl e
           | Inr a \<Rightarrow> Inr (MintTo mint destination authority a)))"

definition recipientPubkey :: "solana_env \<Rightarrow> PublicKey \<Rightarrow> TokenFormData \<Rightarrow> js_error + PublicKey" where
  \<comment> \<open>the \<open>try { new PublicKey(formData.recipientAddress || payer.toString()) }
      catch { payer }\<close> of the pipeline; an empty string is falsy\<close>
  "recipientPubkey env payer formData =
     (case new_PublicKey env
             (if recipientAddress formData \<noteq> [] then recipientAddress formData
              else toString payer) of
        Inr k \<Rightarrow> Inr k
      | Inl error \<Rightarrow> Inr payer)"

definition initialSupply :: "string \<Rightarrow> jsnum \<Rightarrow> js_error + int" where
  \<comment> \<open>\<open>BigInt(parseFloat(formData.tokenSupply) * 10 ** decimals)\<close>\<close>
  "initialSupply supply decimals = BigInt (js_mul (parseFloat supply) (js_pow10 decimals))"

definition createSPLToken_transaction ::
  "solana_env \<Rightarrow> PublicKey \<Rightarrow> PublicKey \<Rightarrow> TokenFormData \<Rightarrow> js_error + instruction list" where
  \<comment> \<open>\<open>createSPLToken\<close> up to the assembled transaction, before fee payer, blockhash and
      signatures are attached. \<open>mintAccount\<close> is the key that \<open>Keypair.generate()\<close>
      returned. A throw anywhere leaves through the outer \<open>catch\<close>, which rethrows.\<close>
  "createSPLToken_transaction env payer mintAccount formData =
     (let decimals = parseInt (tokenDecimals formData)
      in case getMinimumBalanceForRentExemptMint env of
           Inl e \<Rightarrow> Inl e
         | Inr rentExemptBalance \<Rightarrow>
             let tx0 = [];
                 tx1 = tx0 @ [SystemProgram_createAccount payer mintAccount MINT_SIZE
                                rentExemptBalance TOKEN_PROGRAM_ID]
             in case createInitializeMintInstruction env mintAccount decimals payer
                       (if freezeAuthority formData then Some payer else None) of
                  Inl e \<Rightarrow> Inl e
                | Inr initializeMint \<Rightarrow>
                    let tx2 = tx1 @ [initializeMint]
                    in case recipientPubkey env payer formData of
                         Inl e \<Rightarrow> Inl e
                       | Inr recipient \<Rightarrow>
                           (case getAssociatedTokenAddress env mintAccount recipient of
                              Inl e \<Rightarrow> Inl e
                            | Inr associatedTokenAddress \<Rightarrow>
                                let tx3 = tx2 @ [CreateAssociatedTokenAccount payer
                                                   associatedTokenAddress recipient mintAccount]
                                in case initialSupply (tokenSupply formData) decimals of
                                     Inl e \<Rightarrow> Inl e
                                   | Inr supply \<Rightarrow>
                                       (case createMintToInstruction env mintAccount
                                               associatedTokenAddress payer
                                               (Number_of_bigint supply) of
                                          Inl e \<Rightarrow> Inl e
                                        | Inr mintTo \<Rightarrow>
                                            let tx4 = tx3 @ [mintTo];
                                                tx5 = (if mintAuthority formData = transfer
                                                          \<and> toString recipient \<noteq> toString payer
                                                       then tx4 @ [SetAuthority mintAccount payer
                                                                     MintTokens (Some recipient)]
                                                       else tx4)
                                            in Inr tx5)))"

section \<open>JSON values\<close>

datatype json =
    JNull
  | JBool bool
  | JNum rat
  | JStr string
  | JArr "json list"
  | JObj "(string \<times> json) list"

definition field :: "json \<Rightarrow> string \<Rightarrow> json option" where
  \<comment> \<open>\<open>value[key]\<close> on a parsed body; of a repeated key \<open>JSON.parse\<close> keeps the last\<close>
  "field v k = (case v of JObj fs \<Rightarrow> map_of (rev fs) k | _ \<Rightarrow> None)"

definition json_truthy :: "json option \<Rightarrow> bool" where
  "json_truthy v =
     (case v of
        None \<Rightarrow> False
      | Some JNull \<Rightarrow> False
      | Some (JBool b) \<Rightarrow> b
      | Some (JNum q) \<Rightarrow> q \<noteq> 0
      | Some (JStr s) \<Rightarrow> s \<noteq> []
      | Some _ \<Rightarrow> True)"

section \<open>Form validation\<close>

definition validateTokenName :: "string \<Rightarrow> string option" where
  "validateTokenName name =
     (if trim name = [] then Some ''Token name is required''
      else if 50 < length name then Some ''Token name must be less than 50 characters''
      else None)"

definition validateTokenSymbol :: "string \<Rightarrow> string option" where
  "validateTokenSymbol symbol =
     (if trim symbol = [] then Some ''Token symbol is required''
      else if 10 < length symbol then Some ''Token symbol must be less than 10 characters''
      else if \<not> (symbol \<noteq> [] \<and> list_all (\<lambda>c. is_upper c \<or> is_digit c) symbol)
        then Some ''Token symbol must contain only uppercase letters and numbers''
      else None)"

definition MAX_SAFE_INTEGER :: jsnum where
  "MAX_SAFE_INTEGER = Num (2 ^ 53 - 1)"

definition validateTokenSupply :: "string \<Rightarrow> string option" where
  "validateTokenSupply supply =
     (if supply = [] then Some ''Token supply is required''
      else
        let num = Number_of_string (filter (\<lambda>c. c \<noteq> CHR '','') supply)
        in if js_isNaN num then Some ''Supply must be a valid number''
           else if js_le num (Num 0) then Some ''Supply must be greater than 0''
           else if js_gt num MAX_SAFE_INTEGER then Some ''Supply is too high''
           else None)"

definition validateRecipientAddress :: "string \<Rightarrow> string option" where
  "validateRecipientAddress address =
     (if trim address = [] then None
      else if \<not> (32 \<le> length (trim address) \<and> length (trim address) \<le> 44
                 \<and> list_all (\<lambda>c. is_upper c \<or> is_lower c \<or> is_digit c) (trim address))
        then Some ''Invalid Solana address format''
      else None)"

section \<open>The creation wizard (\<open>TokenCreationForm\<close>)\<close>

record BankAccount =
  institutionName :: string
  accountName :: string
  accountMask :: string
  currentBalance :: jsnum
  availableBalance :: jsnum

datatype message =
    Text string
  | MintUpTo jsnum
      \<comment> \<open>``You can only mint up to \<open>n\<close> tokens based on your available balance.''\<close>

text \<open>
  The state of the form component: the React state variables, the form values, the
  wallet the hook reports, and the titles of the toasts shown so far. A state setter
  takes effect in the returned state; within one handler \<open>currentStep\<close> reads the value
  of the render the handler belongs to.
\<close>

record wizard =
  currentStep :: int
  errors :: "(string \<times> message) list"
  verifiedBankAccount :: "BankAccount option"
  formData :: TokenFormData
  publicKey :: "PublicKey option"
  wallet :: bool
  toasts :: "string list"

definition error_entry :: "string \<Rightarrow> string option \<Rightarrow> (string \<times> message) list" where
  "error_entry key e = (case e of None \<Rightarrow> [] | Some text \<Rightarrow> [(key, Text text)])"

definition validateStep :: "int \<Rightarrow> wizard \<Rightarrow> bool \<times> wizard" where
  "validateStep step w =
     (if step = 1 then
        (let nameError = validateTokenName (tokenName (formData w));
             symbolError = validateTokenSymbol (tokenSymbol (formData w))
         in (nameError = None \<and> symbolError = None,
             w\<lparr>errors := error_entry ''tokenName'' nameError
                           @ error_entry ''tokenSymbol'' symbolError\<rparr>))
      else if step = 2 then
        (let supplyError = validateTokenSupply (tokenSupply (formData w))
         in (supplyError = None, w\<lparr>errors := error_entry ''tokenSupply'' supplyError\<rparr>))
      else if step = 3 then
        (case verifiedBankAccount w of
           None \<Rightarrow>
             (False, w\<lparr>toasts := toasts w @ [''Bank Verification Required''], errors := []\<rparr>)
         | Some bank \<Rightarrow>
             (let requestedAmount = parseFloat (tokenSupply (formData w))
              in if js_gt requestedAmount (availableBalance bank) then
                   (False,
                    w\<lparr>toasts := toasts w @ [''Supply Exceeds Balance''],
                      currentStep := 2,
                      errors := [(''tokenSupply'', MintUpTo (availableBalance bank))]\<rparr>)
                 else (True, w\<lparr>errors := []\<rparr>)))
      else if step = 4 then
        (let addressError = validateRecipientAddress (recipientAddress (formData w))
         in (addressError = None, w\<lparr>errors := error_entry ''recipientAddress'' addressError\<rparr>))
      else (True, w\<lparr>errors := []\<rparr>))"

definition nextStep :: "wizard \<Rightarrow> wizard" where
  "nextStep w =
     (case validateStep (currentStep w) w of
        (True, w') \<Rightarrow> w'\<lparr>currentStep := currentStep w + 1\<rparr>
      | (False, w') \<Rightarrow> w'\<lparr>toasts := toasts w' @ [''Validation Error'']\<rparr>)"

definition prevStep :: "wizard \<Rightarrow> wizard" where
  "prevStep w = w\<lparr>currentStep := currentStep w - 1\<rparr>"

definition onSubmit :: "TokenFormData \<Rightarrow> wizard \<Rightarrow> wizard \<times> TokenFormData option" where
  \<comment> \<open>the checks of \<open>onSubmit\<close> ahead of the pipeline: \<open>Some data\<close> when
      \<open>createSPLToken(connection, publicKey, signTransaction, data)\<close> is called\<close>
  "onSubmit data w =
     (if publicKey w = None \<or> \<not> wallet w then (w, None)
      else case verifiedBankAccount w of
             None \<Rightarrow>
               (w\<lparr>toasts := toasts w @ [''Bank Verification Required''], currentStep := 3\<rparr>,
                None)
           | Some bank \<Rightarrow>
               if js_gt (parseFloat (tokenSupply data)) (availableBalance bank) then
                 (w\<lparr>toasts := toasts w @ [''Insufficient Bank Balance''], currentStep := 2\<rparr>,
                  None)
               else (w, Some data))"

definition fallbackBankAccount :: BankAccount where
  "fallbackBankAccount =
     \<lparr>institutionName = ''Bank of America'',
      accountName = ''Checking Account'',
      accountMask = ''1234'',
      currentBalance = Num 5000,
      availableBalance = Num 5000\<rparr>"

definition onBankVerified :: "BankAccount \<Rightarrow> wizard \<Rightarrow> js_error + wizard" where
  \<comment> \<open>the \<open>onBankVerified\<close> the form hands to \<open>FixedPlaidIntegration\<close>; nothing in it throws\<close>
  "onBankVerified bankInfo w =
     Inr (w\<lparr>verifiedBankAccount := Some bankInfo,
            toasts := toasts w @ [''Verification Successful''],
            currentStep := 4\<rparr>)"

definition forceAdvance :: "wizard \<Rightarrow> wizard" where
  "forceAdvance w =
     (if verifiedBankAccount w = None
      then w\<lparr>verifiedBankAccount := Some fallbackBankAccount, currentStep := 4\<rparr>
      else w\<lparr>currentStep := 4\<rparr>)"

section \<open>The bank verification step (\<open>FixedPlaidIntegration\<close>)\<close>

text \<open>
  The component's own state, with a log of the requests it has sent to the server. Its
  parent's state is \<open>'w\<close>; the callbacks \<open>onBankVerified\<close> and \<open>forceAdvance\<close> are props.
  The timers between the steps of a handler are run to completion.
\<close>

record plaid_ui =
  token :: json
  loading :: bool
  error :: "string option"
  fallbackMode :: bool
  success :: bool
  requests :: "string list"

datatype view = SuccessView | LoadingView | FallbackErrorView | ErrorView | MainView

definition render :: "plaid_ui \<Rightarrow> view" where
  \<comment> \<open>which of the component's screens is shown; ``Use Fallback Method'' is a button of
      \<open>FallbackErrorView\<close> only\<close>
  "render ui =
     (if success ui then SuccessView
      else if loading ui then LoadingView
      else if error ui \<noteq> None \<and> error ui \<noteq> Some [] \<and> fallbackMode ui then FallbackErrorView
      else if error ui \<noteq> None \<and> error ui \<noteq> Some [] then ErrorView
      else MainView)"

datatype 'a fetched =
    FetchFailed
      \<comment> \<open>\<open>fetch\<close> rejected\<close>
  | Fetched nat "'a option"
      \<comment> \<open>status code, and the body when it parses as JSON\<close>

definition getLinkToken :: "PublicKey option \<Rightarrow> json fetched \<Rightarrow> plaid_ui \<Rightarrow> plaid_ui" where
  \<comment> \<open>the effect run on mount, with the server's answer to
      \<open>POST /api/plaid/create-link-token\<close>; a body without a truthy \<open>link_token\<close>, or
      one that is \<open>null\<close>, ends in the \<open>catch\<close>\<close>
  "getLinkToken pk response ui =
     (case pk of
        None \<Rightarrow> ui\<lparr>loading := False, error := Some ''Please connect your wallet to continue.''\<rparr>
      | Some k \<Rightarrow>
          (let ui1 = ui\<lparr>loading := True, requests := requests ui @ [''/api/plaid/create-link-token'']\<rparr>;
               failed = ui1\<lparr>error := Some ''Could not initialize bank connection. Use fallback method instead.'',
                            fallbackMode := True, loading := False\<rparr>
           in case response of
                FetchFailed \<Rightarrow> failed
              | Fetched status body \<Rightarrow>
                  if \<not> (200 \<le> status \<and> status \<le> 299) then failed
                  else case body of
                         None \<Rightarrow> failed
                       | Some data \<Rightarrow>
                           if json_truthy (field data ''link_token'')
                           then ui1\<lparr>token := the (field data ''link_token''), loading := False\<rparr>
                           else failed))"

record bankAccount_json =
  j_institutionName :: string
  j_accountName :: string
  j_accountMask :: string
  j_currentBalance :: rat
  j_availableBalance :: rat

record exchange_json =
  j_success :: bool
  j_bankAccount :: "bankAccount_json option"

definition handleSuccess ::
  "PublicKey option \<Rightarrow> (BankAccount \<Rightarrow> 'w \<Rightarrow> js_error + 'w) \<Rightarrow> ('w \<Rightarrow> 'w) option \<Rightarrow>
   exchange_json fetched \<Rightarrow> plaid_ui \<times> 'w \<Rightarrow> plaid_ui \<times> 'w" where
  \<comment> \<open>the handler of a finished Plaid Link session, with the server's answer to
      \<open>POST /api/plaid/exchange-token\<close>. The body is typed as the route sends it, so the
      number fields are numbers and the \<open>typeof\<close> tests take their first branch.\<close>
  "handleSuccess pk onVerified force response st =
     (case st of (ui, w) \<Rightarrow>
      case pk of
        None \<Rightarrow> (ui\<lparr>error := Some ''Wallet connection required''\<rparr>, w)
      | Some k \<Rightarrow>
          (let ui1 = ui\<lparr>loading := True, requests := requests ui @ [''/api/plaid/exchange-token'']\<rparr>;
               failed = (ui1\<lparr>error := Some ''Failed to complete verification. Please try the fallback method.'',
                             fallbackMode := True, loading := False\<rparr>, w)
           in case response of
                FetchFailed \<Rightarrow> failed
              | Fetched status None \<Rightarrow> failed
              | Fetched status (Some data) \<Rightarrow>
                  (case (j_success data, j_bankAccount data) of
                     (True, Some b) \<Rightarrow>
                       (let bankAccount =
                              \<lparr>institutionName =
                                 (if j_institutionName b \<noteq> [] then j_institutionName b else ''Your Bank''),
                               accountName =
                                 (if j_accountName b \<noteq> [] then j_accountName b else ''Bank Account''),
                               accountMask =
                                 (if j_accountMask b \<noteq> [] then j_accountMask b else ''0000''),
                               currentBalance = Num (j_currentBalance b),
                               availableBalance = Num (j_availableBalance b)\<rparr>;
                            ui2 = ui1\<lparr>success := True\<rparr>
                        in case onVerified bankAccount w of
                             Inr w' \<Rightarrow> (ui2, w')
                           | Inl e \<Rightarrow> (ui2, (case force of None \<Rightarrow> w | Some f \<Rightarrow> f w)))
                   | _ \<Rightarrow> failed)))"

definition handleFallbackVerification ::
  "(BankAccount \<Rightarrow> 'w \<Rightarrow> js_error + 'w) \<Rightarrow> ('w \<Rightarrow> 'w) option \<Rightarrow> plaid_ui \<times> 'w \<Rightarrow> plaid_ui \<times> 'w" where
  \<comment> \<open>the handler of ``Use Fallback Method''\<close>
  "handleFallbackVerification onVerified force st =
     (case st of (ui, w) \<Rightarrow>
        let ui1 = ui\<lparr>loading := True\<rparr>;
            ui2 = ui1\<lparr>success := True\<rparr>
        in case onVerified fallbackBankAccount w of
             Inr w' \<Rightarrow> (ui2, w')
           | Inl e \<Rightarrow> (ui2, (case force of None \<Rightarrow> w | Some f \<Rightarrow> f w)))"

definition link_token_received :: "json fetched \<Rightarrow> bool" where
  \<comment> \<open>the answer to the link-token request is a 2xx JSON body with a \<open>link_token\<close>\<close>
  "link_token_received response =
     (case response of
        FetchFailed \<Rightarrow> False
      | Fetched st None \<Rightarrow> False
      | Fetched st (Some data) \<Rightarrow>
          200 \<le> st \<and> st \<le> 299 \<and> json_truthy (field data ''link_token''))"

definition bank_account_received :: "exchange_json fetched \<Rightarrow> bool" where
  \<comment> \<open>the answer to the token exchange is a JSON body with \<open>success\<close> and a \<open>bankAccount\<close>\<close>
  "bank_account_received response =
     (case response of
        FetchFailed \<Rightarrow> False
      | Fetched st None \<Rightarrow> False
      | Fetched st (Some data) \<Rightarrow> j_success data \<and> j_bankAccount data \<noteq> None)"


section \<open>The server: tables of \<open>shared/schema.ts\<close>\<close>

text \<open>
  A table is the list of its rows in insertion order. A \<open>decimal(12, 2)\<close> column holds a
  number; the text the code writes into it (\<open>n.toString()\<close>) is identified with the
  number it denotes, and the column stores it at scale 2: rounded to two decimal places,
  half away from zero, and refused when the rounded value needs more than ten integer
  digits. Timestamps are natural numbers read from the clock of the call.
\<close>

definition decimal_12_2 :: "rat \<Rightarrow> js_error + rat" where
  "decimal_12_2 x =
     (let r = (if 0 \<le> x then of_int \<lfloor>x * 100 + 1 / 2\<rfloor> / 100
               else - (of_int \<lfloor>- x * 100 + 1 / 2\<rfloor> / 100))
      in if 10 ^ 10 \<le> \<bar>r\<bar> then Inl DatabaseError else Inr r)"

definition decimal_12_2_opt :: "rat option \<Rightarrow> js_error + rat option" where
  "decimal_12_2_opt x =
     (case x of
        None \<Rightarrow> Inr None
      | Some q \<Rightarrow> (case decimal_12_2 q of Inl e \<Rightarrow> Inl e | Inr r \<Rightarrow> Inr (Some r)))"

record plaid_item_values =
  wallet_address :: string
  item_id :: string
  access_token :: string
  institution_id :: "string option"
  institution_name :: "string option"
  account_id :: "string option"
  account_name :: "string option"
  account_mask :: "string option"
  current_balance :: "rat option"
  available_balance :: "rat option"

record plaid_items_row = plaid_item_values +
  p_id :: nat
  last_updated :: nat
  created_at :: nat

record stablecoin_mints_row =
  m_id :: nat
  m_wallet_address :: string
  m_plaid_item_id :: "nat option"
  m_token_address :: string
  m_amount_minted :: rat
  m_status :: string
  m_transaction_id :: "string option"
  m_created_at :: nat
  m_completed_at :: "nat option"

record database =
  plaid_items :: "plaid_items_row list"
  plaid_items_id_seq :: nat
  stablecoin_mints :: "stablecoin_mints_row list"
  stablecoin_mints_id_seq :: nat

section \<open>The server: the aggregator and the environment of a call\<close>

record account =
  acc_account_id :: string
  acc_name :: string
  acc_mask :: "string option"
  acc_type :: string
  acc_subtype :: "string option"

record balances =
  bal_current :: "rat option"
  bal_available :: "rat option"

text \<open>
  The Plaid client, as the answers it gives: \<open>Inl\<close> when the call rejects. A call of the
  service runs in an environment: the aggregator, whether the database answers reads
  and writes during the call, and the clock.
\<close>

record plaid_api =
  itemPublicTokenExchange :: "string \<Rightarrow> js_error + string \<times> string"
  itemGet :: "string \<Rightarrow> js_error + string option"
  institutionsGetById :: "string \<Rightarrow> js_error + string"
  accountsGet :: "string \<Rightarrow> js_error + account list"
  accountsBalanceGet :: "string \<Rightarrow> string option \<Rightarrow> js_error + balances list"

record env =
  plaidClient :: plaid_api
  db_read_ok :: bool
  db_write_ok :: bool
  now :: nat

section \<open>The server: queries\<close>

definition select_plaid_items_by_wallet ::
  "env \<Rightarrow> database \<Rightarrow> string \<Rightarrow> js_error + plaid_items_row list" where
  \<comment> \<open>\<open>db.select().from(plaidItems).where(eq(plaidItems.wallet_address, w)).limit(1)\<close>\<close>
  "select_plaid_items_by_wallet e db w =
     (if db_read_ok e then Inr (take 1 (filter (\<lambda>r. wallet_address r = w) (plaid_items db)))
      else Inl DatabaseError)"

definition stored_values :: "plaid_item_values \<Rightarrow> js_error + plaid_item_values" where
  \<comment> \<open>the values as the column types take them\<close>
  "stored_values v =
     (case decimal_12_2_opt (current_balance v) of
        Inl e \<Rightarrow> Inl e
      | Inr c \<Rightarrow>
          (case decimal_12_2_opt (available_balance v) of
             Inl e \<Rightarrow> Inl e
           | Inr a \<Rightarrow> Inr (v\<lparr>current_balance := c, available_balance := a\<rparr>)))"

definition insert_plaid_item :: "env \<Rightarrow> database \<Rightarrow> plaid_item_values \<Rightarrow> js_error + database" where
  \<comment> \<open>\<open>db.insert(plaidItems).values(v)\<close>: \<open>item_id\<close> is unique, \<open>wallet_address\<close> has a
      unique index, \<open>id\<close> is the next value of the sequence, both timestamps default to now\<close>
  "insert_plaid_item e db v =
     (if \<not> db_write_ok e then Inl DatabaseError
      else case stored_values v of
             Inl err \<Rightarrow> Inl err
           | Inr v' \<Rightarrow>
               if \<exists>r \<in> set (plaid_items db).
                    item_id r = item_id v' \<or> wallet_address r = wallet_address v'
               then Inl DatabaseError
               else Inr (db\<lparr>plaid_items :=
                              plaid_items db @
                                [plaid_item_values.extend v'
                                   \<lparr>p_id = plaid_items_id_seq db + 1,
                                    last_updated = now e, created_at = now e\<rparr>],
                            plaid_items_id_seq := plaid_items_id_seq db + 1\<rparr>))"

definition set_values :: "plaid_item_values \<Rightarrow> plaid_items_row \<Rightarrow> plaid_items_row" where
  "set_values v r =
     r\<lparr>wallet_address := wallet_address v, item_id := item_id v,
       access_token := access_token v, institution_id := institution_id v,
       institution_name := institution_name v, account_id := account_id v,
       account_name := account_name v, account_mask := account_mask v,
       current_balance := current_balance v, available_balance := available_balance v\<rparr>"

definition update_plaid_item ::
  "env \<Rightarrow> database \<Rightarrow> nat \<Rightarrow> plaid_item_values \<Rightarrow> js_error + database" where
  \<comment> \<open>\<open>db.update(plaidItems).set(v).where(eq(plaidItems.id, rid))\<close>\<close>
  "update_plaid_item e db rid v =
     (if \<not> db_write_ok e then Inl DatabaseError
      else case stored_values v of
             Inl err \<Rightarrow> Inl err
           | Inr v' \<Rightarrow>
               if (\<exists>r \<in> set (plaid_items db). p_id r = rid) \<and>
                  (\<exists>r \<in> set (plaid_items db).
                     p_id r \<noteq> rid \<and>
                     (item_id r = item_id v' \<or> wallet_address r = wallet_address v'))
               then Inl DatabaseError
               else Inr (db\<lparr>plaid_items :=
                              map (\<lambda>r. if p_id r = rid then set_values v' r else r)
                                (plaid_items db)\<rparr>))"

definition update_balances ::
  "env \<Rightarrow> database \<Rightarrow> nat \<Rightarrow> rat option \<Rightarrow> rat option \<Rightarrow> js_error + database" where
  \<comment> \<open>\<open>db.update(plaidItems).set({current_balance, available_balance, last_updated})
      .where(eq(plaidItems.id, rid))\<close>\<close>
  "update_balances e db rid cur avail =
     (if \<not> db_write_ok e then Inl DatabaseError
      else case decimal_12_2_opt cur of
             Inl err \<Rightarrow> Inl err
           | Inr c \<Rightarrow>
               (case decimal_12_2_opt avail of
                  Inl err \<Rightarrow> Inl err
                | Inr a \<Rightarrow>
                    Inr (db\<lparr>plaid_items :=
                               map (\<lambda>r. if p_id r = rid
                                         then r\<lparr>current_balance := c, available_balance := a,
                                                last_updated := now e\<rparr>
                                         else r)
                                 (plaid_items db)\<rparr>)))"

definition insert_stablecoin_mint ::
  "env \<Rightarrow> database \<Rightarrow> string \<Rightarrow> nat \<Rightarrow> string \<Rightarrow> rat \<Rightarrow> string \<Rightarrow> string option \<Rightarrow>
   nat option \<Rightarrow> js_error + database" where
  \<comment> \<open>\<open>db.insert(stablecoinMints).values({...})\<close>: \<open>plaid_item_id\<close> references
      \<open>plaid_items.id\<close>, \<open>created_at\<close> defaults to now\<close>
  "insert_stablecoin_mint e db w item tok amount st txid completed =
     (if \<not> db_write_ok e then Inl DatabaseError
      else case decimal_12_2 amount of
             Inl err \<Rightarrow> Inl err
           | Inr a \<Rightarrow>
               if \<not> (\<exists>r \<in> set (plaid_items db). p_id r = item) then Inl DatabaseError
               else Inr (db\<lparr>stablecoin_mints :=
                              stablecoin_mints db @
                                [\<lparr>m_id = stablecoin_mints_id_seq db + 1,
                                  m_wallet_address = w,
                                  m_plaid_item_id = Some item,
                                  m_token_address = tok,
                                  m_amount_minted = a,
                                  m_status = st,
                                  m_transaction_id = txid,
                                  m_created_at = now e,
                                  m_completed_at = completed\<rparr>],
                            stablecoin_mints_id_seq := stablecoin_mints_id_seq db + 1\<rparr>))"

definition select_mints_by_wallet ::
  "env \<Rightarrow> database \<Rightarrow> string \<Rightarrow> js_error + stablecoin_mints_row list" where
  \<comment> \<open>\<open>db.select().from(stablecoinMints).where(eq(wallet_address, w)).orderBy(created_at)\<close>;
      rows of one timestamp are given in insertion order\<close>
  "select_mints_by_wallet e db w =
     (if db_read_ok e
      then Inr (sort_key m_created_at (filter (\<lambda>r. m_wallet_address r = w) (stablecoin_mints db)))
      else Inl DatabaseError)"


section \<open>The server: \<open>plaidService\<close>\<close>

definition truthy_number :: "rat option \<Rightarrow> bool" where
  \<comment> \<open>a \<open>number | null\<close> in a condition: \<open>null\<close> and \<open>0\<close> are falsy\<close>
  "truthy_number x = (case x of None \<Rightarrow> False | Some q \<Rightarrow> q \<noteq> 0)"

definition truthy_string :: "string option \<Rightarrow> bool" where
  "truthy_string x = (case x of None \<Rightarrow> False | Some s \<Rightarrow> s \<noteq> [])"

definition or_null :: "string option \<Rightarrow> string option" where
  \<comment> \<open>\<open>x || null\<close>\<close>
  "or_null x = (if truthy_string x then x else None)"

definition or_default :: "string option \<Rightarrow> string \<Rightarrow> string" where
  \<comment> \<open>\<open>String(x || d)\<close>\<close>
  "or_default x d = (if truthy_string x then the x else d)"

definition find_account :: "account list \<Rightarrow> account option" where
  \<comment> \<open>the first checking or savings account of a depository, else the first account\<close>
  "find_account accounts =
     (case List.find (\<lambda>acc. acc_type acc = ''depository'' \<and>
                            (acc_subtype acc = Some ''checking'' \<or> acc_subtype acc = Some ''savings''))
             accounts of
        Some a \<Rightarrow> Some a
      | None \<Rightarrow> (case accounts of [] \<Rightarrow> None | a # _ \<Rightarrow> Some a))"

definition plaidItem ::
  "string \<Rightarrow> string \<Rightarrow> string \<Rightarrow> string option \<Rightarrow> string \<Rightarrow> account \<Rightarrow> balances \<Rightarrow>
   plaid_item_values" where
  \<comment> \<open>the object \<open>plaidItem\<close> that \<open>exchangePublicToken\<close> stores\<close>
  "plaidItem walletAddress itemId' accessToken' institutionId institutionName' acct accountBalance =
     \<lparr>wallet_address = walletAddress,
      item_id = itemId',
      access_token = accessToken',
      institution_id = or_null institutionId,
      institution_name = or_null (Some institutionName'),
      account_id = Some (acc_account_id acct),
      account_name = Some (acc_name acct),
      account_mask = acc_mask acct,
      current_balance =
        (if truthy_number (bal_current accountBalance) then bal_current accountBalance else None),
      available_balance =
        (if truthy_number (bal_available accountBalance) then bal_available accountBalance
         else if truthy_number (bal_current accountBalance) then bal_current accountBalance
         else None)\<rparr>"

definition storePlaidItem :: "env \<Rightarrow> database \<Rightarrow> plaid_item_values \<Rightarrow> js_error + database" where
  \<comment> \<open>the body of the \<open>try\<close> around the database in \<open>exchangePublicToken\<close>: look the
      wallet up, update the row found, insert when there is none\<close>
  "storePlaidItem e db v =
     (case select_plaid_items_by_wallet e db (wallet_address v) of
        Inl err \<Rightarrow> Inl err
      | Inr existingItem \<Rightarrow>
          (case existingItem of
             r # _ \<Rightarrow> update_plaid_item e db (p_id r) v
           | [] \<Rightarrow> insert_plaid_item e db v))"

record exchange_result =
  itemId :: string
  accessToken :: string
  x_institutionName :: string
  x_accountName :: string
  x_accountMask :: string
  x_currentBalance :: rat
  x_availableBalance :: rat

definition link_values :: "env \<Rightarrow> string \<Rightarrow> string \<Rightarrow> js_error + plaid_item_values \<times> exchange_result" where
  \<comment> \<open>the aggregator calls of \<open>exchangePublicToken\<close>, in the order of the source: the
      values to store and the account data to return\<close>
  "link_values e publicToken walletAddress =
     (case itemPublicTokenExchange (plaidClient e) publicToken of
        Inl err \<Rightarrow> Inl err
      | Inr (accessToken', itemId') \<Rightarrow>
          (case itemGet (plaidClient e) accessToken' of
             Inl err \<Rightarrow> Inl err
           | Inr institutionId \<Rightarrow>
               (let institutionName' =
                      (if truthy_string institutionId then
                         (case institutionsGetById (plaidClient e) (the institutionId) of
                            Inr name \<Rightarrow> name
                          | Inl err \<Rightarrow> ''Sandbox Bank'')
                       else ''Sandbox Bank'')
                in case accountsGet (plaidClient e) accessToken' of
                     Inl err \<Rightarrow> Inl err
                   | Inr accounts \<Rightarrow>
                       (case find_account accounts of
                          None \<Rightarrow> Inl (Error ''No suitable account found'')
                        | Some acct \<Rightarrow>
                            (case accountsBalanceGet (plaidClient e) accessToken'
                                    (Some (acc_account_id acct)) of
                               Inl err \<Rightarrow> Inl err
                             | Inr [] \<Rightarrow> Inl TypeError
                             | Inr (accountBalance # _) \<Rightarrow>
                                 Inr (plaidItem walletAddress itemId' accessToken' institutionId
                                        institutionName' acct accountBalance,
                                      \<lparr>itemId = itemId',
                                        accessToken = accessToken',
                                        x_institutionName = or_default (Some institutionName') ''Your Bank'',
                                        x_accountName = or_default (Some (acc_name acct)) ''Bank Account'',
                                        x_accountMask = or_default (acc_mask acct) ''0000'',
                                        x_currentBalance =
                                          (case bal_current accountBalance of
                                             Some c \<Rightarrow> c | None \<Rightarrow> 1000),
                                        x_availableBalance =
                                          (case bal_available accountBalance of
                                             Some a \<Rightarrow> a
                                           | None \<Rightarrow>
                                               (case bal_current accountBalance of
                                                  Some c \<Rightarrow> c | None \<Rightarrow> 1000))\<rparr>))))))"

definition exchangePublicToken ::
  "env \<Rightarrow> string \<Rightarrow> string \<Rightarrow> database \<Rightarrow> database \<times> (js_error + exchange_result)" where
  \<comment> \<open>a failure of the database is logged and the account data returned all the same\<close>
  "exchangePublicToken e publicToken walletAddress db =
     (case link_values e publicToken walletAddress of
        Inl err \<Rightarrow> (db, Inl err)
      | Inr (v, responseData) \<Rightarrow>
          (case storePlaidItem e db v of
             Inr db' \<Rightarrow> (db', Inr responseData)
           | Inl dbError \<Rightarrow> (db, Inr responseData)))"

record account_info =
  i_institutionName :: "string option"
  i_accountName :: "string option"
  i_accountMask :: "string option"
  i_currentBalance :: "rat option"
  i_availableBalance :: "rat option"

definition balance_columns :: "balances \<Rightarrow> rat option \<times> rat option" where
  \<comment> \<open>what \<open>getBankAccountInfo\<close> writes to \<open>current_balance\<close> and \<open>available_balance\<close>\<close>
  "balance_columns accountBalance =
     ((if truthy_number (bal_current accountBalance) then bal_current accountBalance else None),
      (if truthy_number (bal_available accountBalance) then bal_available accountBalance
       else if truthy_number (bal_current accountBalance) then bal_current accountBalance
       else None))"

definition getBankAccountInfo ::
  "env \<Rightarrow> string \<Rightarrow> database \<Rightarrow> database \<times> (js_error + account_info option)" where
  \<comment> \<open>\<open>Inr None\<close> is the \<open>null\<close> of the source. Whatever is thrown inside the inner
      \<open>try\<close> is rethrown as the database error; a failed balance update is only logged.\<close>
  "getBankAccountInfo e walletAddress db =
     (let failed = (db, Inl (Error ''Database error: Unable to access bank account information''))
      in case select_plaid_items_by_wallet e db walletAddress of
           Inl err \<Rightarrow> failed
         | Inr [] \<Rightarrow> (db, Inr None)
         | Inr (item # _) \<Rightarrow>
             (case accountsBalanceGet (plaidClient e) (access_token item) (account_id item) of
                Inl err \<Rightarrow> failed
              | Inr [] \<Rightarrow> failed
              | Inr (accountBalance # _) \<Rightarrow>
                  (let db' = (case update_balances e db (p_id item)
                                     (fst (balance_columns accountBalance))
                                     (snd (balance_columns accountBalance)) of
                                Inr d \<Rightarrow> d
                              | Inl dbUpdateError \<Rightarrow> db)
                   in (db',
                       Inr (Some \<lparr>i_institutionName = institution_name item,
                                  i_accountName = account_name item,
                                  i_accountMask = account_mask item,
                                  i_currentBalance = bal_current accountBalance,
                                  i_availableBalance =
                                    (if truthy_number (bal_available accountBalance)
                                     then bal_available accountBalance
                                     else bal_current accountBalance)\<rparr>)))))"

definition recordStablecoinMint ::
  "env \<Rightarrow> string \<Rightarrow> string \<Rightarrow> rat \<Rightarrow> string \<Rightarrow> string option \<Rightarrow> database \<Rightarrow> js_error + database" where
  "recordStablecoinMint e walletAddress tokenAddress amount st transactionId db =
     (case select_plaid_items_by_wallet e db walletAddress of
        Inl err \<Rightarrow> Inl err
      | Inr [] \<Rightarrow> Inl (Error ''No Plaid item found for wallet address'')
      | Inr (item # _) \<Rightarrow>
          insert_stablecoin_mint e db walletAddress (p_id item) tokenAddress amount st
            (or_null transactionId)
            (if st = ''completed'' then Some (now e) else None))"

section \<open>The server: routes\<close>

datatype response_body =
    InvalidRequestBody
  | ErrorBody string
  | SuccessBody
  | AccountInfoBody account_info
  | HistoryBody "stablecoin_mints_row list"

record http_response =
  status :: nat
  body :: response_body

definition address_string :: "json option \<Rightarrow> string option" where
  \<comment> \<open>\<open>z.string().min(32).max(44)\<close>\<close>
  "address_string v =
     (case v of
        Some (JStr s) \<Rightarrow> (if 32 \<le> length s \<and> length s \<le> 44 then Some s else None)
      | _ \<Rightarrow> None)"

definition walletAddressSchema :: "json \<Rightarrow> string option" where
  "walletAddressSchema b =
     (case b of JObj fs \<Rightarrow> address_string (field b ''walletAddress'') | _ \<Rightarrow> None)"

record mint_request =
  q_walletAddress :: string
  q_tokenAddress :: string
  q_amount :: rat
  q_transactionId :: "string option"

definition mintStablecoinSchema :: "json \<Rightarrow> mint_request option" where
  \<comment> \<open>\<open>amount: z.number().positive()\<close>, \<open>transactionId: z.string().optional()\<close>\<close>
  "mintStablecoinSchema b =
     (case b of
        JObj fs \<Rightarrow>
          (case (address_string (field b ''walletAddress''),
                 address_string (field b ''tokenAddress''),
                 field b ''amount'') of
             (Some w, Some t, Some (JNum a)) \<Rightarrow>
               if 0 < a then
                 (case field b ''transactionId'' of
                    None \<Rightarrow>
                      Some \<lparr>q_walletAddress = w, q_tokenAddress = t, q_amount = a,
                            q_transactionId = None\<rparr>
                  | Some (JStr x) \<Rightarrow>
                      Some \<lparr>q_walletAddress = w, q_tokenAddress = t, q_amount = a,
                            q_transactionId = Some x\<rparr>
                  | Some _ \<Rightarrow> None)
               else None
           | _ \<Rightarrow> None)
      | _ \<Rightarrow> None)"

definition invalid_request :: http_response where
  "invalid_request = \<lparr>status = 400, body = InvalidRequestBody\<rparr>"

definition account_info_route :: "env \<Rightarrow> json \<Rightarrow> database \<Rightarrow> database \<times> http_response" where
  \<comment> \<open>\<open>POST /api/plaid/account-info\<close>\<close>
  "account_info_route e b db =
     (case walletAddressSchema b of
        None \<Rightarrow> (db, invalid_request)
      | Some walletAddress \<Rightarrow>
          (case getBankAccountInfo e walletAddress db of
             (db', Inl err) \<Rightarrow>
               (db', \<lparr>status = 500, body = ErrorBody ''Failed to get account information''\<rparr>)
           | (db', Inr None) \<Rightarrow>
               (db', \<lparr>status = 404, body = ErrorBody ''No linked bank account found''\<rparr>)
           | (db', Inr (Some accountInfo)) \<Rightarrow>
               (db', \<lparr>status = 200, body = AccountInfoBody accountInfo\<rparr>)))"

definition record_mint_route :: "env \<Rightarrow> json \<Rightarrow> database \<Rightarrow> database \<times> http_response" where
  \<comment> \<open>\<open>POST /api/plaid/record-mint\<close>\<close>
  "record_mint_route e b db =
     (case mintStablecoinSchema b of
        None \<Rightarrow> (db, invalid_request)
      | Some r \<Rightarrow>
          (case recordStablecoinMint e (q_walletAddress r) (q_tokenAddress r) (q_amount r)
                  ''completed'' (q_transactionId r) db of
             Inr db' \<Rightarrow> (db', \<lparr>status = 200, body = SuccessBody\<rparr>)
           | Inl err \<Rightarrow>
               (db, \<lparr>status = 500, body = ErrorBody ''Failed to record stablecoin mint''\<rparr>)))"

definition mint_history_route :: "env \<Rightarrow> json \<Rightarrow> database \<Rightarrow> http_response" where
  \<comment> \<open>\<open>POST /api/plaid/mint-history\<close>\<close>
  "mint_history_route e b db =
     (case walletAddressSchema b of
        None \<Rightarrow> invalid_request
      | Some walletAddress \<Rightarrow>
          (case select_mints_by_wallet e db walletAddress of
             Inr history \<Rightarrow> \<lparr>status = 200, body = HistoryBody history\<rparr>
           | Inl err \<Rightarrow> \<lparr>status = 500, body = ErrorBody ''Failed to get minting history''\<rparr>))"

abbreviation mint_row ::
  "env \<Rightarrow> database \<Rightarrow> string \<Rightarrow> nat \<Rightarrow> string \<Rightarrow> rat \<Rightarrow> string \<Rightarrow> string option \<Rightarrow>
   stablecoin_mints_row" where
  \<comment> \<open>the row that \<open>recordStablecoinMint\<close> inserts for the link row \<open>item\<close>, once the
      amount is stored as \<open>a\<close>\<close>
  "mint_row e db w item t a st txid \<equiv>
     \<lparr>m_id = stablecoin_mints_id_seq db + 1, m_wallet_address = w, m_plaid_item_id = Some item,
      m_token_address = t, m_amount_minted = a, m_status = st, m_transaction_id = or_null txid,
      m_created_at = now e, m_completed_at = (if st = ''completed'' then Some (now e) else None)\<rparr>"

section \<open>Sequences of link completions\<close>

record link_call =
  call_env :: env
  call_publicToken :: string
  call_walletAddress :: string

fun complete_links :: "link_call list \<Rightarrow> database \<Rightarrow> database" where
  \<comment> \<open>the database after the calls of \<open>exchangePublicToken\<close>, one after the other\<close>
  "complete_links [] db = db"
| "complete_links (c # cs) db =
     complete_links cs
       (fst (exchangePublicToken (call_env c) (call_publicToken c) (call_walletAddress c) db))"

fun links_stored :: "link_call list \<Rightarrow> database \<Rightarrow> bool" where
  \<comment> \<open>every call of the sequence returns its account data and its item is stored\<close>
  "links_stored [] db = True"
| "links_stored (c # cs) db =
     (case link_values (call_env c) (call_publicToken c) (call_walletAddress c) of
        Inl err \<Rightarrow> False
      | Inr (v, responseData) \<Rightarrow>
          (case storePlaidItem (call_env c) db v of
             Inl dbError \<Rightarrow> False
           | Inr db' \<Rightarrow> links_stored cs db'))"

definition table_ok :: "database \<Rightarrow> bool" where
  \<comment> \<open>\<open>plaid_items\<close> satisfies its primary key and the unique index on \<open>wallet_address\<close>,
      and the sequence of ids is ahead of the ids in use\<close>
  "table_ok db =
     (distinct (map p_id (plaid_items db)) \<and>
      distinct (map wallet_address (plaid_items db)) \<and>
      list_all (\<lambda>r. p_id r \<le> plaid_items_id_seq db) (plaid_items db))"


section \<open>Sample inputs\<close>

text \<open>Concrete values at which the theorems below are instantiated.\<close>

definition sample_payer :: PublicKey where
  "sample_payer = PublicKey ''7xKXtg2CW87d97TXJSDpbD5jBkheTqA83TZRuJosgAsU''"

definition sample_recipient :: PublicKey where
  "sample_recipient = PublicKey ''9WzDXwBbmkg8ZTbNMqUxvQRAyrZzDsGYdLVL9zYtAWWM''"

definition sample_mint :: PublicKey where
  "sample_mint = PublicKey ''So11111111111111111111111111111111111111112''"

definition sample_ata :: PublicKey where
  "sample_ata = PublicKey ''4Nd1mBQtrMJVYVfKf2PJy9NZUZdTAsp7D4xWLs4gDB4T''"

definition leading_hex_digits :: "nat \<Rightarrow> int \<Rightarrow> int" where
  \<comment> \<open>the number that the \<open>k\<close> leading hexadecimal digits of \<open>n \<ge> 0\<close> write\<close>
  "leading_hex_digits k n = n div 16 ^ (nat (\<lceil>of_int (bitlen n) / 4 :: rat\<rceil>) - k)"

definition sample_solana_env :: solana_env where
  \<comment> \<open>a byte writer that refuses decimals outside a byte, and that writes an amount of
      more than sixteen hexadecimal digits through the sixteen leading ones, as a writer
      does that pads and cuts the hexadecimal text of the amount to the width of the field\<close>
  "sample_solana_env =
     \<lparr>valid_key = (\<lambda>s. length s = 44),
      getMinimumBalanceForRentExemptMint = Inr 1461600,
      getAssociatedTokenAddress = (\<lambda>mint owner. Inr sample_ata),
      u8_out_of_range = (\<lambda>x. Inl RangeError),
      u64_out_of_range =
        (\<lambda>x. case x of
               Num q \<Rightarrow> (if of_int \<lfloor>q\<rfloor> = q \<and> 0 \<le> q
                         then Inr (word_of_int (leading_hex_digits 16 \<lfloor>q\<rfloor>))
                         else Inl TypeError)
             | _ \<Rightarrow> Inl RangeError)\<rparr>"

definition sample_formData :: TokenFormData where
  "sample_formData =
     \<lparr>tokenName = ''Munin Dollar'',
      tokenSymbol = ''MUSD'',
      tokenDescription = None,
      tokenSupply = ''5000'',
      tokenDecimals = ''6'',
      mintAuthority = transfer,
      recipientAddress = ''9WzDXwBbmkg8ZTbNMqUxvQRAyrZzDsGYdLVL9zYtAWWM'',
      freezeAuthority = False\<rparr>"

definition sample_wizard :: wizard where
  "sample_wizard =
     \<lparr>currentStep = 3,
      errors = [],
      verifiedBankAccount = Some fallbackBankAccount,
      formData = sample_formData,
      publicKey = Some sample_payer,
      wallet = True,
      toasts = []\<rparr>"

definition sample_ui :: plaid_ui where
  "sample_ui =
     \<lparr>token = JStr [], loading = True, error = None, fallbackMode = False, success = False,
      requests = []\<rparr>"

definition sample_unverified :: wizard where
  "sample_unverified = sample_wizard\<lparr>verifiedBankAccount := None\<rparr>"

definition sample_wallet :: string where
  "sample_wallet = ''7xKXtg2CW87d97TXJSDpbD5jBkheTqA83TZRuJosgAsU''"

definition sample_token :: string where
  "sample_token = ''So11111111111111111111111111111111111111112''"

definition sample_plaid :: plaid_api where
  "sample_plaid =
     \<lparr>itemPublicTokenExchange = (\<lambda>t. Inr (''access-sandbox-1'', ''item-1'')),
      itemGet = (\<lambda>a. Inr (Some ''ins_1'')),
      institutionsGetById = (\<lambda>i. Inr ''First Platypus Bank''),
      accountsGet =
        (\<lambda>a. Inr [\<lparr>acc_account_id = ''acc-1'', acc_name = ''Plaid Checking'',
                     acc_mask = Some ''0000'', acc_type = ''depository'',
                     acc_subtype = Some ''checking''\<rparr>]),
      accountsBalanceGet = (\<lambda>a i. Inr [\<lparr>bal_current = Some 110, bal_available = Some 100\<rparr>])\<rparr>"

definition sample_env :: env where
  "sample_env = \<lparr>plaidClient = sample_plaid, db_read_ok = True, db_write_ok = True, now = 1\<rparr>"

definition empty_database :: database where
  "empty_database =
     \<lparr>plaid_items = [], plaid_items_id_seq = 0, stablecoin_mints = [],
      stablecoin_mints_id_seq = 0\<rparr>"

definition sample_row :: plaid_items_row where
  "sample_row =
     \<lparr>wallet_address = sample_wallet, item_id = ''item-1'', access_token = ''access-sandbox-1'',
      institution_id = Some ''ins_1'', institution_name = Some ''First Platypus Bank'',
      account_id = Some ''acc-1'', account_name = Some ''Plaid Checking'',
      account_mask = Some ''0000'', current_balance = Some 110, available_balance = Some 100,
      p_id = 1, last_updated = 1, created_at = 1\<rparr>"

definition sample_linked :: database where
  "sample_linked =
     \<lparr>plaid_items = [sample_row], plaid_items_id_seq = 1, stablecoin_mints = [],
      stablecoin_mints_id_seq = 0\<rparr>"

definition wallet_body :: "string \<Rightarrow> json" where
  "wallet_body w = JObj [(''walletAddress'', JStr w)]"

definition mint_body :: "string \<Rightarrow> string \<Rightarrow> rat \<Rightarrow> string \<Rightarrow> json" where
  "mint_body w t a x =
     JObj [(''walletAddress'', JStr w), (''tokenAddress'', JStr t), (''amount'', JNum a),
           (''transactionId'', JStr x)]"

definition sample_env_zero_available :: env where
  \<comment> \<open>the aggregator reports a current balance of 110 and an available balance of 0\<close>
  "sample_env_zero_available =
     \<lparr>plaidClient =
        sample_plaid\<lparr>accountsBalanceGet :=
                       (\<lambda>a i. Inr [\<lparr>bal_current = Some 110, bal_available = Some 0\<rparr>])\<rparr>,
      db_read_ok = True, db_write_ok = True, now = 2\<rparr>"

definition sample_relink_env :: env where
  \<comment> \<open>a later link of another item: other tokens, balances of 250 and 200\<close>
  "sample_relink_env =
     \<lparr>plaidClient =
        sample_plaid\<lparr>itemPublicTokenExchange := (\<lambda>t. Inr (''access-sandbox-2'', ''item-2'')),
                     accountsBalanceGet :=
                       (\<lambda>a i. Inr [\<lparr>bal_current = Some 250, bal_available = Some 200\<rparr>])\<rparr>,
      db_read_ok = True, db_write_ok = True, now = 5\<rparr>"

definition sample_relinked_row :: plaid_items_row where
  "sample_relinked_row =
     \<lparr>wallet_address = sample_wallet, item_id = ''item-2'', access_token = ''access-sandbox-2'',
      institution_id = Some ''ins_1'', institution_name = Some ''First Platypus Bank'',
      account_id = Some ''acc-1'', account_name = Some ''Plaid Checking'',
      account_mask = Some ''0000'', current_balance = Some 250, available_balance = Some 200,
      p_id = 1, last_updated = 1, created_at = 1\<rparr>"

definition sample_calls :: "link_call list" where
  "sample_calls =
     [\<lparr>call_env = sample_env, call_publicToken = ''public-sandbox-1'',
       call_walletAddress = sample_wallet\<rparr>,
      \<lparr>call_env = sample_relink_env, call_publicToken = ''public-sandbox-2'',
       call_walletAddress = sample_wallet\<rparr>]"


section \<open>Numbers that binary64 holds exactly\<close>

lemma round_half_even_int: "round_half_even (of_int n) = n"
  by (simp add: round_half_even_def)

lemma ilog2_int:
  assumes "0 < k"
  shows "ilog2 (of_int k) = bitlen k - 1"
proof -
  have q: "quotient_of (of_int k) = (k, 1)"
    by (simp add: Rat.of_int_def [symmetric] quotient_of_int)
  have b1: "bitlen 1 = 1" by (simp add: bitlen_alt_def)
  from bitlen_bounds [OF assms] have lo: "2 ^ nat (bitlen k - 1) \<le> k" by simp
  from assms have ge: "1 \<le> bitlen k" by (auto simp: bitlen_alt_def)
  have "pow2 (bitlen k - 1) = 2 ^ nat (bitlen k - 1)" using ge by (simp add: pow2_def)
  also have "\<dots> = of_int (2 ^ nat (bitlen k - 1))" by simp
  also have "\<dots> \<le> of_int k" using lo by (simp only: of_int_le_iff)
  finally have "pow2 (bitlen k - 1) \<le> of_int k" .
  then show ?thesis
    by (simp add: ilog2_def q b1)
qed

lemma fl64_int:
  assumes "0 < k" and "k \<le> 2 ^ 53"
  shows "fl64 (of_int k) = Num (of_int k)"
proof -
  define e where "e = bitlen k - 1"
  have il: "ilog2 (of_int k) = e" unfolding e_def by (rule ilog2_int [OF assms(1)])
  from assms(1) have e0: "0 \<le> e" by (auto simp: e_def bitlen_alt_def)
  from assms(2) have "k < 2 ^ nat 54" by simp
  then have "bitlen k \<le> 54" by (simp add: bitlen_le_iff_power)
  then have e53: "e \<le> 53" by (simp add: e_def)
  from bitlen_bounds [OF assms(1)] have lo: "2 ^ nat e \<le> k" by (simp add: e_def)
  have "\<exists>n. (of_int k :: rat) = of_int n * pow2 (e - 52)"
  proof (cases "e \<le> 52")
    case True
    then have "pow2 (e - 52) * 2 ^ nat (52 - e) = 1"
      by (cases "e = 52") (simp_all add: pow2_def)
    then have "(of_int k :: rat) = of_int k * (2 ^ nat (52 - e) * pow2 (e - 52))"
      by (simp add: mult.commute)
    also have "\<dots> = of_int (k * 2 ^ nat (52 - e)) * pow2 (e - 52)"
      by simp
    finally show ?thesis by blast
  next
    case False
    with e53 have e: "e = 53" by simp
    with lo assms(2) have "k = 2 ^ 53" by simp
    then have "(of_int k :: rat) = of_int (2 ^ 52) * pow2 (e - 52)"
      by (simp add: e pow2_def)
    then show ?thesis by blast
  qed
  then obtain n where n: "(of_int k :: rat) = of_int n * pow2 (e - 52)" by blast
  have u: "pow2 (e - 52) \<noteq> 0" by (simp add: pow2_def)
  have d: "(of_int k :: rat) / pow2 (e - 52) = of_int n"
    using n u by simp
  have a: "\<bar>of_int k :: rat\<bar> = of_int k" and z: "(of_int k :: rat) \<noteq> 0"
    and p: "\<not> (of_int k :: rat) < 0"
    using assms(1) by simp_all
  have m: "max e (- 1022) = e" using e0 by simp
  show ?thesis
    unfolding fl64_def Let_def a il m d round_half_even_int
    using z p e53 n by simp
qed

lemma fl64_nat: "n \<le> 2 ^ 53 \<Longrightarrow> fl64 (of_int n) = Num (of_int n)" if "0 \<le> n"
proof (cases "n = 0")
  case True
  then show ?thesis by (simp add: fl64_def)
next
  case False
  assume "n \<le> 2 ^ 53"
  with that False show ?thesis by (simp add: fl64_int)
qed


text \<open>
  Rounding to binary64 leaves a binary64 value as it is. The proof goes through the
  exponent that \<open>ilog2\<close> finds and the bounds of the rounded significand.
\<close>

lemma pow2_powi: "pow2 e = 2 powi e"
  by (simp add: pow2_def power_int_def power_one_over)

lemma pow2_pos: "0 < pow2 e"
  by (simp add: pow2_powi)

lemma pow2_add: "pow2 (a + b) = pow2 a * pow2 b"
  by (simp add: pow2_powi power_int_add)

lemma pow2_diff: "pow2 (a - b) = pow2 a / pow2 b"
  using pow2_add [of "a - b" b] pow2_pos [of b] by (simp add: field_simps)

lemma pow2_less: "a < b \<Longrightarrow> pow2 a < pow2 b"
  by (simp add: pow2_powi power_int_strict_increasing)

lemma pow2_le: "a \<le> b \<Longrightarrow> pow2 a \<le> pow2 b"
  by (simp add: pow2_powi power_int_increasing)

lemma pow2_less_D: "pow2 a < pow2 b \<Longrightarrow> a < b"
  using pow2_le [of b a] by (cases "a < b") simp_all

lemma pow2_nat: "0 \<le> e \<Longrightarrow> pow2 e = 2 ^ nat e"
  by (simp add: pow2_def)

lemma ilog2_bounds:
  assumes "0 < a"
  shows "pow2 (ilog2 a) \<le> a \<and> a < pow2 (ilog2 a + 1)"
proof -
  obtain p q where pq: "quotient_of a = (p, q)" by force
  have q0: "0 < q" using quotient_of_denom_pos [OF pq] .
  have a: "a = of_int p / of_int q" using quotient_of_div [OF pq] .
  have p0: "0 < p" using assms q0 by (simp add: a zero_less_divide_iff)
  define d where "d = bitlen p - bitlen q"
  have bp: "1 \<le> bitlen p" and bq: "1 \<le> bitlen q"
    using p0 q0 by (auto simp: bitlen_alt_def)
  from bitlen_bounds [OF p0] have "(of_int (2 ^ nat (bitlen p - 1)) :: rat) \<le> of_int p"
    and "(of_int p :: rat) < of_int (2 ^ nat (bitlen p))"
    by (simp_all only: of_int_le_iff of_int_less_iff)
  then have plo: "pow2 (bitlen p - 1) \<le> of_int p" and phi: "of_int p < pow2 (bitlen p)"
    using bp by (simp_all add: pow2_nat)
  from bitlen_bounds [OF q0] have "(of_int (2 ^ nat (bitlen q - 1)) :: rat) \<le> of_int q"
    and "(of_int q :: rat) < of_int (2 ^ nat (bitlen q))"
    by (simp_all only: of_int_le_iff of_int_less_iff)
  then have qlo: "pow2 (bitlen q - 1) \<le> of_int q" and qhi: "of_int q < pow2 (bitlen q)"
    using bq by (simp_all add: pow2_nat)
  have q0': "(0::rat) < of_int q" using q0 by simp
  have "a < pow2 (bitlen p) / of_int q"
    unfolding a using phi q0' by (simp add: divide_strict_right_mono)
  also have "\<dots> \<le> pow2 (bitlen p) / pow2 (bitlen q - 1)"
    using qlo pow2_pos [of "bitlen q - 1"] pow2_pos [of "bitlen p"]
    by (intro divide_left_mono) (simp_all add: q0')
  also have "\<dots> = pow2 (d + 1)"
    by (simp add: pow2_diff [symmetric] d_def algebra_simps)
  finally have hi: "a < pow2 (d + 1)" .
  have "pow2 (d - 1) = pow2 (bitlen p - 1) / pow2 (bitlen q)"
    by (simp add: pow2_diff [symmetric] d_def algebra_simps)
  also have "\<dots> < pow2 (bitlen p - 1) / of_int q"
    using qhi q0' pow2_pos [of "bitlen p - 1"]
    by (intro divide_strict_left_mono) simp_all
  also have "\<dots> \<le> a"
    unfolding a using plo q0' by (simp add: divide_right_mono)
  finally have lo: "pow2 (d - 1) < a" .
  show ?thesis
  proof (cases "pow2 d \<le> a")
    case True
    then have "ilog2 a = d" by (simp add: ilog2_def pq d_def)
    with True hi show ?thesis by simp
  next
    case False
    then have "ilog2 a = d - 1" by (simp add: ilog2_def pq d_def)
    with False lo show ?thesis by simp
  qed
qed

lemma ilog2_unique:
  assumes "0 < a" and "pow2 e \<le> a" and "a < pow2 (e + 1)"
  shows "ilog2 a = e"
proof -
  from ilog2_bounds [OF assms(1)] have lo: "pow2 (ilog2 a) \<le> a" and hi: "a < pow2 (ilog2 a + 1)"
    by simp_all
  from lo assms(3) have "pow2 (ilog2 a) < pow2 (e + 1)" by simp
  then have "ilog2 a < e + 1" by (rule pow2_less_D)
  moreover from assms(2) hi have "pow2 e < pow2 (ilog2 a + 1)" by simp
  then have "e < ilog2 a + 1" by (rule pow2_less_D)
  ultimately show ?thesis by simp
qed

lemma round_half_even_ge: "of_int n \<le> x \<Longrightarrow> n \<le> round_half_even x"
proof -
  assume "of_int n \<le> x"
  then have "n \<le> \<lfloor>x\<rfloor>" by (simp add: le_floor_iff)
  then show ?thesis by (simp add: round_half_even_def Let_def)
qed

lemma round_half_even_le: "x \<le> of_int n \<Longrightarrow> round_half_even x \<le> n"
proof (cases "x = of_int n")
  case True
  then show ?thesis by (simp add: round_half_even_def)
next
  case False
  assume "x \<le> of_int n"
  with False have "x < of_int n" by simp
  then have "\<lfloor>x\<rfloor> < n" by (simp add: floor_less_iff)
  then show ?thesis by (simp add: round_half_even_def Let_def)
qed

lemma fl64_minus: "fl64 (- x) = js_neg (fl64 x)"
  by (cases "x = 0") (auto simp: fl64_def js_neg_def Let_def)

lemma fl64_grid:
  assumes m0: "0 < m" and m53: "m \<le> 2 ^ 53"
    and elo: "- 1022 \<le> e" and ehi: "e \<le> 1023"
    and norm: "2 ^ 52 \<le> m \<or> e = - 1022"
    and top: "\<not> (e = 1023 \<and> m = 2 ^ 53)"
  shows "fl64 (of_int m * pow2 (e - 52)) = Num (of_int m * pow2 (e - 52))"
proof -
  define u where "u = pow2 (e - 52)"
  define y where "y = of_int m * u"
  have u0: "0 < u" by (simp add: u_def pow2_pos)
  have y0: "0 < y" using m0 u0 by (simp add: y_def)
  have p52: "pow2 52 = 2 ^ 52" and p53: "pow2 53 = 2 ^ 53" by (simp_all add: pow2_def)
  have ue: "pow2 e = 2 ^ 52 * u"
    using pow2_add [of 52 "e - 52"] by (simp add: u_def p52)
  have ue1: "pow2 (e + 1) = 2 ^ 53 * u"
    using pow2_add [of 53 "e - 52"] by (simp add: u_def p53 add.commute)
  have a: "\<bar>y\<bar> = y" and z: "y \<noteq> 0" and p: "\<not> y < 0" using y0 by simp_all
  show ?thesis
  proof (cases "m = 2 ^ 53")
    case True
    with top ehi have e22: "e \<le> 1022" by simp
    have yv: "y = pow2 (e + 1)" by (simp add: y_def True ue1)
    have "ilog2 y = e + 1"
      using y0 by (rule ilog2_unique) (simp_all add: yv pow2_less)
    then have il: "max (ilog2 y) (- 1022) = e + 1" using elo by simp
    have u2: "pow2 (e + 1 - 52) = 2 * u"
      using pow2_add [of 1 "e - 52"] by (simp add: u_def pow2_def algebra_simps)
    have d: "y / (2 * u) = of_int (2 ^ 52)"
      using u0 by (simp add: y_def True)
    have "fl64 y = Num (of_int (2 ^ 52) * (2 * u))"
      unfolding fl64_def Let_def a il u2 d round_half_even_int
      using z p e22 by simp
    also have "of_int (2 ^ 52) * (2 * u) = y" by (simp add: y_def True)
    finally show ?thesis by (simp add: y_def u_def)
  next
    case False
    with m53 have m53': "m < 2 ^ 53" by simp
    have yhi: "y < pow2 (e + 1)"
    proof -
      from m53' have "(of_int m :: rat) < of_int (2 ^ 53)" by (simp only: of_int_less_iff)
      then have "of_int m * u < 2 ^ 53 * u" using u0 by simp
      then show ?thesis by (simp add: y_def ue1)
    qed
    have il: "max (ilog2 y) (- 1022) = e"
    proof (cases "2 ^ 52 \<le> m")
      case True
      then have "(of_int (2 ^ 52) :: rat) \<le> of_int m" by (simp only: of_int_le_iff)
      then have "2 ^ 52 * u \<le> of_int m * u" using u0 by simp
      then have "pow2 e \<le> y" by (simp add: y_def ue)
      with y0 yhi have "ilog2 y = e" by (intro ilog2_unique)
      with elo show ?thesis by simp
    next
      case False
      with norm have e: "e = - 1022" by simp
      from ilog2_bounds [OF y0] yhi have "pow2 (ilog2 y) < pow2 (e + 1)" by simp
      then have "ilog2 y < e + 1" by (rule pow2_less_D)
      with e show ?thesis by simp
    qed
    have d: "y / u = of_int m" using u0 by (simp add: y_def)
    have "fl64 y = Num (of_int m * u)"
      unfolding fl64_def Let_def a il u_def [symmetric] d round_half_even_int
      using z p ehi m53' by simp
    then show ?thesis by (simp add: y_def u_def)
  qed
qed

lemma fl64_idem_pos:
  assumes "0 < x" and "fl64 x = Num q"
  shows "fl64 q = Num q"
proof -
  define e where "e = max (ilog2 x) (- 1022)"
  define u where "u = pow2 (e - 52)"
  define m where "m = round_half_even (x / u)"
  have u0: "0 < u" by (simp add: u_def pow2_pos)
  have a: "\<bar>x\<bar> = x" and z: "x \<noteq> 0" and p: "\<not> x < 0" using assms(1) by simp_all
  have f: "fl64 x = (if 1023 < e \<or> (e = 1023 \<and> 2 ^ 53 \<le> m) then PosInf
                     else Num (of_int m * u))"
    unfolding fl64_def Let_def a e_def [symmetric] u_def [symmetric] m_def [symmetric]
    using z p by simp
  with assms(2) have ehi: "e \<le> 1023" and top: "\<not> (e = 1023 \<and> 2 ^ 53 \<le> m)"
    and q: "q = of_int m * u"
    by (auto split: if_splits)
  have elo: "- 1022 \<le> e" by (simp add: e_def)
  have p52: "pow2 52 = 2 ^ 52" and p53: "pow2 53 = 2 ^ 53" by (simp_all add: pow2_def)
  have ue: "pow2 e = 2 ^ 52 * u"
    using pow2_add [of 52 "e - 52"] by (simp add: u_def p52)
  have ue1: "pow2 (e + 1) = 2 ^ 53 * u"
    using pow2_add [of 53 "e - 52"] by (simp add: u_def p53 add.commute)
  from ilog2_bounds [OF assms(1)] have xlo: "pow2 (ilog2 x) \<le> x" and xhi: "x < pow2 (ilog2 x + 1)"
    by simp_all
  have "ilog2 x + 1 \<le> e + 1" by (simp add: e_def)
  then have "pow2 (ilog2 x + 1) \<le> pow2 (e + 1)" by (rule pow2_le)
  with xhi have "x < 2 ^ 53 * u" by (simp add: ue1)
  then have "x / u \<le> of_int (2 ^ 53)" using u0 by (simp add: pos_divide_le_eq)
  then have m53: "m \<le> 2 ^ 53" unfolding m_def by (rule round_half_even_le)
  have "(of_int 0 :: rat) \<le> x / u" using assms(1) u0 by simp
  then have m0: "0 \<le> m" unfolding m_def by (rule round_half_even_ge)
  have norm: "2 ^ 52 \<le> m \<or> e = - 1022"
  proof (cases "e = - 1022")
    case False
    then have "ilog2 x = e" by (simp add: e_def max_def split: if_splits)
    with xlo have "pow2 e \<le> x" by simp
    then have "2 ^ 52 * u \<le> x" by (simp only: ue)
    then have "of_int (2 ^ 52) \<le> x / u" using u0 by (simp add: pos_le_divide_eq)
    then have "2 ^ 52 \<le> m" unfolding m_def by (rule round_half_even_ge)
    then show ?thesis by simp
  qed simp
  show ?thesis
  proof (cases "m = 0")
    case True
    then show ?thesis by (simp add: q fl64_def)
  next
    case False
    with m0 have "0 < m" by simp
    moreover from top have "\<not> (e = 1023 \<and> m = 2 ^ 53)" by auto
    ultimately show ?thesis
      unfolding q u_def using m53 elo ehi norm by (intro fl64_grid)
  qed
qed

lemma fl64_idem:
  assumes "fl64 x = Num q"
  shows "fl64 q = Num q"
proof -
  consider "x = 0" | "0 < x" | "x < 0" by linarith
  then show ?thesis
  proof cases
    case 1
    with assms show ?thesis by (simp add: fl64_def)
  next
    case 2
    then show ?thesis using assms by (rule fl64_idem_pos)
  next
    case 3
    from assms have "fl64 (- x) = Num (- q)"
      by (simp add: fl64_minus js_neg_def)
    with 3 have "fl64 (- q) = Num (- q)" by (intro fl64_idem_pos [of "- x"]) simp_all
    then have "js_neg (fl64 q) = Num (- q)" by (simp add: fl64_minus)
    then show ?thesis by (cases "fl64 q") (simp_all add: js_neg_def)
  qed
qed

lemma js_mul_idem: "js_mul a b = Num q \<Longrightarrow> fl64 q = Num q"
  by (cases a; cases b) (auto simp: js_mul_def split: if_splits intro: fl64_idem)


lemma is_digit_chars:
  "is_digit c \<Longrightarrow> \<not> is_space c \<and> c \<noteq> CHR ''-'' \<and> c \<noteq> CHR ''+'' \<and> c \<noteq> CHR ''I''"
  by (auto simp: is_digit_def is_space_def)

lemma parseFloat_digits:
  assumes "ds \<noteq> []" and "list_all is_digit ds"
  shows "parseFloat ds = fl64 (of_int (digits_val ds))"
proof -
  from assms obtain c r where ds: "ds = c # r" and c: "is_digit c"
    by (cases ds) auto
  from assms(2) have tw: "takeWhile is_digit ds = ds" and dw: "dropWhile is_digit ds = []"
    by (simp_all add: list_all_iff)
  have ts: "trimStart ds = ds"
    using is_digit_chars [OF c] by (simp add: trimStart_def ds)
  have inf: "take 8 ds \<noteq> ''Infinity''"
    using is_digit_chars [OF c] by (simp add: ds)
  have u: "str_unsigned_decimal_literal ds = Some (fl64 (of_int (digits_val ds)), [])"
    using inf assms(1) by (simp add: str_unsigned_decimal_literal_def tw dw exponent_part_def pow10_def)
  have "str_decimal_literal ds = Some (fl64 (of_int (digits_val ds)), [])"
    using is_digit_chars [OF c] u by (simp add: str_decimal_literal_def ds)
  then show ?thesis by (simp add: parseFloat_def ts)
qed

lemma BigInt_int: "BigInt (Num (of_int k)) = Inr k"
  by (simp add: BigInt_def)

text \<open>
  A supply written as a string of decimal digits is scaled exactly as long as the scaled
  value stays within the 53 bits of a double: the drift of the scaling concerns fractional
  supplies and values beyond that range only.
\<close>

lemma whole_supply_scaled_exactly:
  assumes "ds \<noteq> []" and "list_all is_digit ds"
    and "0 < digits_val ds"
    and "digits_val ds * 10 ^ d \<le> 2 ^ 53"
  shows "initialSupply ds (Num (of_nat d)) = Inr (digits_val ds * 10 ^ d)"
proof -
  define n where "n = digits_val ds"
  have p: "(1::int) \<le> 10 ^ d" by simp
  from assms(3) have n1: "1 \<le> n" by (simp add: n_def)
  have "n * 1 \<le> n * 10 ^ d" using n1 p by (intro mult_left_mono) simp_all
  with assms(4) have nle: "n \<le> 2 ^ 53" by (simp add: n_def)
  have "1 * 10 ^ d \<le> n * (10 ^ d :: int)" using n1 by (intro mult_right_mono) simp_all
  also have "\<dots> \<le> 2 ^ 53" using assms(4) by (simp add: n_def)
  finally have ple: "(10 ^ d :: int) \<le> 2 ^ 53" by simp
  have a: "parseFloat ds = Num (of_int n)"
    using parseFloat_digits [OF assms(1,2)] fl64_int [of n] n1 nle by (simp add: n_def)
  have "js_pow10 (Num (of_nat d)) = fl64 (of_int (10 ^ d))"
    by (simp add: js_pow10_def pow10_def)
  also have "\<dots> = Num (of_int (10 ^ d))"
    using fl64_int [of "10 ^ d"] ple by simp
  finally have b: "js_pow10 (Num (of_nat d)) = Num (of_int (10 ^ d))" .
  have "0 < n * 10 ^ d" using n1 by simp
  then have c: "fl64 (of_int (n * 10 ^ d)) = Num (of_int (n * 10 ^ d))"
    using fl64_int [of "n * 10 ^ d"] assms(4) by (simp add: n_def)
  have "js_mul (Num (of_int n)) (Num (of_int (10 ^ d))) = fl64 (of_int (n * 10 ^ d))"
    by (simp add: js_mul_def)
  with a b c show ?thesis
    using BigInt_int [of "n * 10 ^ d"] by (simp add: initialSupply_def n_def)
qed


section \<open>Facts about JavaScript numbers\<close>

lemma js_gt_not_le: "a \<noteq> NaN \<Longrightarrow> b \<noteq> NaN \<Longrightarrow> js_gt a b = (\<not> js_le a b)"
  by (cases a; cases b) (auto simp: js_gt_def js_le_def)

lemma js_gt_NaN [simp]: "js_gt NaN b = False" "js_gt a NaN = False"
  by (cases a; simp add: js_gt_def)+

lemma js_le_Num [simp]: "js_le (Num x) (Num y) = (x \<le> y)"
  by (simp add: js_le_def)

lemma parseFloat_5000: "parseFloat ''5000'' = Num 5000"
  by code_simp

lemma parseInt_6: "parseInt ''6'' = Num 6"
  by code_simp

lemma toString_eq: "(toString a = toString b) = (a = b)"
  by (cases a; cases b) simp

section \<open>The verification gate\<close>

lemma validateStep_3:
  "verifiedBankAccount w = Some bank \<Longrightarrow>
   fst (validateStep 3 w) = (\<not> js_gt (parseFloat (tokenSupply (formData w))) (availableBalance bank))"
  by (simp add: validateStep_def Let_def)

lemma nextStep_3:
  "verifiedBankAccount w = Some bank \<Longrightarrow> currentStep w = 3 \<Longrightarrow>
   currentStep (nextStep w) =
     (if js_gt (parseFloat (tokenSupply (formData w))) (availableBalance bank) then 2 else 4)"
  by (simp add: nextStep_def validateStep_def Let_def)

lemma onSubmit_gate:
  "verifiedBankAccount w = Some bank \<Longrightarrow> publicKey w \<noteq> None \<Longrightarrow> wallet w \<Longrightarrow>
   onSubmit d w =
     (if js_gt (parseFloat (tokenSupply d)) (availableBalance bank)
      then (w\<lparr>toasts := toasts w @ [''Insufficient Bank Balance''], currentStep := 2\<rparr>, None)
      else (w, Some d))"
  by (auto simp: onSubmit_def)

text \<open>
  Claim C1. With a verified bank snapshot whose available balance is a number \<open>b\<close>, and a
  requested supply that \<open>parseFloat\<close> reads as a number \<open>s\<close>, the gate lets the user on
  exactly when \<open>s \<le> b\<close>: the check of step 3 succeeds and \<open>nextStep\<close> moves from step 3
  to step 4 exactly then (and back to step 2 otherwise), and the final submission calls
  the minting pipeline exactly then (and returns to step 2 otherwise). In particular
  \<open>s = b\<close> proceeds.
\<close>

theorem verification_gate_iff_supply_le_balance:
  assumes "verifiedBankAccount w = Some bank"
    and "availableBalance bank \<noteq> NaN"
    and "parseFloat (tokenSupply (formData w)) \<noteq> NaN"
    and "parseFloat (tokenSupply d) \<noteq> NaN"
    and "publicKey w \<noteq> None"
    and "wallet w"
  shows "fst (validateStep 3 w)
           = js_le (parseFloat (tokenSupply (formData w))) (availableBalance bank)
       \<and> (currentStep w = 3 \<longrightarrow>
            currentStep (nextStep w)
              = (if js_le (parseFloat (tokenSupply (formData w))) (availableBalance bank)
                 then 4 else 2))
       \<and> (snd (onSubmit d w) = Some d)
           = js_le (parseFloat (tokenSupply d)) (availableBalance bank)
       \<and> (js_le (parseFloat (tokenSupply d)) (availableBalance bank)
            \<or> currentStep (fst (onSubmit d w)) = 2)
       \<and> (parseFloat (tokenSupply d) = availableBalance bank \<longrightarrow> snd (onSubmit d w) = Some d)"
  using assms
  by (cases "availableBalance bank")
     (simp_all add: validateStep_3 nextStep_3 onSubmit_gate js_gt_not_le js_le_def)

theorem verification_gate_witness:
  "verifiedBankAccount sample_wizard = Some fallbackBankAccount
   \<and> availableBalance fallbackBankAccount = Num 5000
   \<and> parseFloat (tokenSupply (formData sample_wizard)) = Num 5000
   \<and> fst (validateStep 3 sample_wizard)
   \<and> currentStep (nextStep sample_wizard) = 4
   \<and> snd (onSubmit sample_formData sample_wizard) = Some sample_formData"
proof -
  have v: "verifiedBankAccount sample_wizard = Some fallbackBankAccount"
    and k: "publicKey sample_wizard \<noteq> None" and c: "wallet sample_wizard"
    and s: "currentStep sample_wizard = 3"
    and f: "formData sample_wizard = sample_formData"
    by (simp_all add: sample_wizard_def)
  have b: "availableBalance fallbackBankAccount = Num 5000"
    by (simp add: fallbackBankAccount_def)
  have p: "parseFloat (tokenSupply sample_formData) = Num 5000"
    by (simp add: sample_formData_def parseFloat_5000)
  from verification_gate_iff_supply_le_balance [of sample_wizard fallbackBankAccount sample_formData]
  show ?thesis using v k c s f b p by simp
qed

text \<open>
  The hypothesis on the supply cannot be dropped: a supply that \<open>parseFloat\<close> does not
  read as a number is not stopped by the comparison, whatever the balance.
\<close>

lemma gate_passes_unparsed_supply:
  "verifiedBankAccount w = Some bank \<Longrightarrow> parseFloat (tokenSupply (formData w)) = NaN \<Longrightarrow>
   fst (validateStep 3 w)"
  by (simp add: validateStep_3)

section \<open>The minting pipeline\<close>

lemma parseFloat_8_2: "parseFloat ''8.2'' = Num (2308094809027379 / 281474976710656)"
  by code_simp

lemma scaled_8_2:
  "js_mul (Num (2308094809027379 / 281474976710656)) (js_pow10 (Num 6))
     = Num (8804682956799999 / 1073741824)"
  by code_simp

lemma BigInt_scaled_8_2: "BigInt (Num (8804682956799999 / 1073741824)) = Inl RangeError"
  by code_simp

text \<open>
  Claim C2. The amount of the mint-to instruction is \<open>BigInt(parseFloat(supply) * 10 **
  decimals)\<close>: a binary64 product, converted by \<open>BigInt\<close>, which rejects every number
  that is not an integer. For the supply \<open>8.2\<close> and 6 decimals the exact product is
  8200000, but \<open>parseFloat\<close> reads 8.2 as the binary64 value just below it, the rounded
  product is 8199999.999999999068..., and the conversion throws a RangeError: the scaling
  is neither free of floating-point drift nor free of throwing.
\<close>

theorem scaling_8_2_with_6_decimals_throws:
  "parseInt ''6'' = Num 6
   \<and> parseFloat ''8.2'' = Num (2308094809027379 / 281474976710656)
   \<and> js_mul (parseFloat ''8.2'') (js_pow10 (parseInt ''6'')) = Num (8804682956799999 / 1073741824)
   \<and> (8804682956799999 / 1073741824 :: rat) < 82 / 10 * 10 ^ 6
   \<and> initialSupply ''8.2'' (parseInt ''6'') = Inl RangeError"
  by (simp add: initialSupply_def parseInt_6 parseFloat_8_2 scaled_8_2 BigInt_scaled_8_2)

text \<open>With that supply no transaction is assembled: the pipeline leaves with the error.\<close>

lemma createSPLToken_8_2_throws:
  assumes "getMinimumBalanceForRentExemptMint env = Inr rent"
    and "getAssociatedTokenAddress env mintAccount payer = Inr ata"
    and "recipientAddress fd = []"
    and "tokenSupply fd = ''8.2''" and "tokenDecimals fd = ''6''"
  shows "createSPLToken_transaction env payer mintAccount fd = Inl RangeError"
proof -
  have "recipientPubkey env payer fd = Inr payer"
    using assms(3) by (cases payer) (simp add: recipientPubkey_def new_PublicKey_def)
  moreover have "initialSupply ''8.2'' (Num 6) = Inl RangeError"
    by (simp add: initialSupply_def parseFloat_8_2 scaled_8_2 BigInt_scaled_8_2)
  ultimately show ?thesis
    using assms
    by (simp add: createSPLToken_transaction_def parseInt_6 createInitializeMintInstruction_def
          integer_below_def)
qed

text \<open>A whole-number supply in the safe range is scaled exactly, as for the form's defaults.\<close>

lemma initialSupply_default: "initialSupply ''1000000'' (parseInt ''6'') = Inr 1000000000000"
  by code_simp

lemma initialSupply_5000: "initialSupply ''5000'' (Num 6) = Inr 5000000000"
  by code_simp

lemma Number_of_bigint_5000000000: "Number_of_bigint 5000000000 = Num 5000000000"
  by code_simp


section \<open>The assembled transaction\<close>

lemma recipientPubkey_eq:
  "recipientPubkey env payer fd =
     Inr (if recipientAddress fd \<noteq> [] \<and> valid_key env (recipientAddress fd)
          then PublicKey (recipientAddress fd) else payer)"
  by (cases payer) (simp add: recipientPubkey_def new_PublicKey_def)

lemma BigInt_Inr_iff: "(BigInt x = Inr n) = (x = Num (of_int n))"
  by (cases x) (auto simp: BigInt_def)

lemma initialSupply_Inr_iff:
  "(initialSupply s d = Inr n) = (js_mul (parseFloat s) (js_pow10 d) = Num (of_int n))"
  by (simp add: initialSupply_def BigInt_Inr_iff)

lemma Number_of_initialSupply:
  "initialSupply s d = Inr n \<Longrightarrow> Number_of_bigint n = Num (of_int n)"
  unfolding initialSupply_Inr_iff Number_of_bigint_def by (rule js_mul_idem)

lemma integer_below_Some_iff:
  "(integer_below b x = Some k) = (x = Num (of_int k) \<and> 0 \<le> k \<and> k < b)"
  by (cases x) (auto simp: integer_below_def)

lemma integer_below_None_iff:
  "(integer_below b x = None) = (\<not> (\<exists>k. x = Num (of_int k) \<and> 0 \<le> k \<and> k < b))"
proof (cases "integer_below b x")
  case None
  then show ?thesis using integer_below_Some_iff [of b x] by auto
next
  case (Some k)
  then show ?thesis using integer_below_Some_iff [of b x k] by auto
qed


lemma uint_eq_iff_u64:
  "0 \<le> k \<Longrightarrow> k < 2 ^ 64 \<Longrightarrow> (uint (a :: 64 word) = k) = (a = word_of_int k)"
  by (auto simp: uint_word_of_int_eq take_bit_int_eq_self)

lemma createMintToInstruction_Inr_iff:
  "(createMintToInstruction env mint dest auth (Num (of_int n)) = Inr i) =
   (\<exists>a. (if 0 \<le> n \<and> n < 2 ^ 64 then uint a = n
          else u64_out_of_range env (Num (of_int n)) = Inr a)
        \<and> i = MintTo mint dest auth a)"
proof (cases "0 \<le> n \<and> n < 2 ^ 64")
  case True
  then have "integer_below (2 ^ 64) (Num (of_int n)) = Some n"
    by (simp add: integer_below_Some_iff)
  with True show ?thesis
    by (auto simp: createMintToInstruction_def uint_eq_iff_u64)
next
  case False
  then have "integer_below (2 ^ 64) (Num (of_int n)) = None"
    by (simp add: integer_below_None_iff)
  with False show ?thesis
    by (auto simp: createMintToInstruction_def split: sum.splits)
qed


lemma createSPLToken_transaction_Inr_iff:
  "(createSPLToken_transaction env payer mintAccount fd = Inr tx) =
   (\<exists>rent i2 recipient ata n i4.
      getMinimumBalanceForRentExemptMint env = Inr rent \<and>
      createInitializeMintInstruction env mintAccount (parseInt (tokenDecimals fd)) payer
        (if freezeAuthority fd then Some payer else None) = Inr i2 \<and>
      recipientPubkey env payer fd = Inr recipient \<and>
      getAssociatedTokenAddress env mintAccount recipient = Inr ata \<and>
      initialSupply (tokenSupply fd) (parseInt (tokenDecimals fd)) = Inr n \<and>
      createMintToInstruction env mintAccount ata payer (Number_of_bigint n) = Inr i4 \<and>
      tx = [SystemProgram_createAccount payer mintAccount MINT_SIZE rent TOKEN_PROGRAM_ID,
            i2,
            CreateAssociatedTokenAccount payer ata recipient mintAccount,
            i4]
           @ (if mintAuthority fd = transfer \<and> recipient \<noteq> payer
              then [SetAuthority mintAccount payer MintTokens (Some recipient)] else []))"
proof (cases "getMinimumBalanceForRentExemptMint env")
  case (Inl e)
  then show ?thesis by (simp add: createSPLToken_transaction_def)
next
  case rent: (Inr r)
  show ?thesis
  proof (cases "createInitializeMintInstruction env mintAccount (parseInt (tokenDecimals fd))
                  payer (if freezeAuthority fd then Some payer else None)")
    case (Inl e)
    with rent show ?thesis by (simp add: createSPLToken_transaction_def)
  next
    case ini: (Inr i)
    show ?thesis
    proof (cases "getAssociatedTokenAddress env mintAccount
                    (if recipientAddress fd \<noteq> [] \<and> valid_key env (recipientAddress fd)
                     then PublicKey (recipientAddress fd) else payer)")
      case (Inl e)
      with rent ini show ?thesis
        by (simp add: createSPLToken_transaction_def recipientPubkey_eq)
    next
      case ata: (Inr a)
      show ?thesis
      proof (cases "initialSupply (tokenSupply fd) (parseInt (tokenDecimals fd))")
        case (Inl e)
        with rent ini ata show ?thesis
          by (simp add: createSPLToken_transaction_def recipientPubkey_eq)
      next
        case sup: (Inr n)
        show ?thesis
        proof (cases "createMintToInstruction env mintAccount a payer (Number_of_bigint n)")
          case (Inl e)
          with rent ini ata sup show ?thesis
            by (simp add: createSPLToken_transaction_def recipientPubkey_eq)
        next
          case (Inr m)
          with rent ini ata sup show ?thesis
            by (auto simp: createSPLToken_transaction_def recipientPubkey_eq Let_def toString_eq)
        qed
      qed
    qed
  qed
qed



lemma parseInt_18: "parseInt ''18'' = Num 18"
  by code_simp

lemma scaled_5000_18:
  "js_mul (parseFloat ''5000'') (js_pow10 (Num 18)) = Num 5000000000000000000000"
  by code_simp


lemma integer_below_6: "integer_below 256 (Num 6) = Some 6"
  by (simp add: integer_below_def)




lemma initialSupply_5000_18: "initialSupply ''5000'' (Num 18) = Inr 5000000000000000000000"
  using initialSupply_Inr_iff [of "''5000''" "Num 18" 5000000000000000000000]
  by (simp add: scaled_5000_18)

lemma sample_recipient_facts:
  "recipientAddress sample_formData \<noteq> []"
  "valid_key sample_solana_env (recipientAddress sample_formData)"
  "PublicKey (recipientAddress sample_formData) = sample_recipient"
  "sample_recipient \<noteq> sample_payer"
  by (simp_all add: sample_formData_def sample_solana_env_def sample_recipient_def
        sample_payer_def)



text \<open>
  This does not depend on the writer: whatever it does with the amount, a transaction
  assembled for the supply 5000 with 18 decimals credits an amount other than the scaled
  supply, which no 64-bit amount is.
\<close>

lemma oversized_supply_not_credited:
  assumes "createSPLToken_transaction env payer mintAccount fd = Inr tx"
    and "tokenSupply fd = ''5000''" and "tokenDecimals fd = ''18''"
  shows "\<exists>ata a. tx ! 3 = MintTo mintAccount ata payer a
                \<and> uint a \<noteq> 5000000000000000000000"
proof -
  from assms(1) obtain rent i2 recipient ata n i4 where
    s: "initialSupply (tokenSupply fd) (parseInt (tokenDecimals fd)) = Inr n"
    and m: "createMintToInstruction env mintAccount ata payer (Number_of_bigint n) = Inr i4"
    and x: "tx = [SystemProgram_createAccount payer mintAccount MINT_SIZE rent TOKEN_PROGRAM_ID,
                  i2, CreateAssociatedTokenAccount payer ata recipient mintAccount, i4]
                 @ (if mintAuthority fd = transfer \<and> recipient \<noteq> payer
                    then [SetAuthority mintAccount payer MintTokens (Some recipient)] else [])"
    unfolding createSPLToken_transaction_Inr_iff by (elim exE conjE) (rule that)
  from s have n: "n = 5000000000000000000000"
    by (simp add: assms(2,3) parseInt_18 initialSupply_5000_18)
  from m obtain a where i4: "i4 = MintTo mintAccount ata payer a"
    unfolding Number_of_initialSupply [OF s] createMintToInstruction_Inr_iff
    by (elim exE conjE) (rule that)
  have "uint a < 2 ^ 64" using uint_bounded [of a] by simp
  then have "uint a \<noteq> 5000000000000000000000" by simp
  moreover from x i4 have "tx ! 3 = MintTo mintAccount ata payer a" by simp
  ultimately show ?thesis by blast
qed

text \<open>A negative supply scales to a negative amount, which the sample writer refuses.\<close>

lemma scaled_minus_5_6: "js_mul (parseFloat ''-5'') (js_pow10 (Num 6)) = Num (- 5000000)"
  by code_simp

lemma Number_of_bigint_minus_5000000: "Number_of_bigint (- 5000000) = Num (- 5000000)"
  by code_simp

lemma negative_supply_throws:
  "createSPLToken_transaction sample_solana_env sample_payer sample_mint
     (sample_formData\<lparr>tokenSupply := ''-5''\<rparr>) = Inl TypeError"
proof -
  have s: "initialSupply ''-5'' (Num 6) = Inr (- 5000000)"
    using initialSupply_Inr_iff [of "''-5''" "Num 6" "- 5000000"] by (simp add: scaled_minus_5_6)
  have o: "u64_out_of_range sample_solana_env (Num (- 5000000)) = Inl TypeError"
    by (simp add: sample_solana_env_def)
  have m: "createMintToInstruction sample_solana_env sample_mint sample_ata sample_payer
             (Num (- 5000000)) = Inl TypeError"
    by (simp add: createMintToInstruction_def integer_below_def o)
  have i: "createInitializeMintInstruction sample_solana_env sample_mint (Num 6) sample_payer None
           = Inr (InitializeMint sample_mint 6 sample_payer None)"
    by (simp add: createInitializeMintInstruction_def integer_below_6)
  have k: "recipientPubkey sample_solana_env sample_payer
             (sample_formData\<lparr>tokenSupply := ''-5''\<rparr>) = Inr sample_recipient"
    using sample_recipient_facts by (simp add: recipientPubkey_eq)
  have e: "getMinimumBalanceForRentExemptMint sample_solana_env = Inr 1461600"
    "getAssociatedTokenAddress sample_solana_env = (\<lambda>mint owner. Inr sample_ata)"
    by (simp_all add: sample_solana_env_def)
  have f: "\<not> freezeAuthority sample_formData" "tokenDecimals sample_formData = ''6''"
    by (simp_all add: sample_formData_def)
  show ?thesis
    by (simp add: createSPLToken_transaction_def parseInt_6 i k e f s
          Number_of_bigint_minus_5000000 m)
qed

text \<open>
  Claim C6. Resolving the recipient never throws, and when the form's recipient address
  is empty or is not a well-formed public key the resolved recipient is the payer.
\<close>

theorem unparsable_recipient_is_payer:
  "(\<exists>k. recipientPubkey env payer fd = Inr k)
   \<and> (recipientAddress fd = [] \<or> \<not> valid_key env (recipientAddress fd)
        \<longrightarrow> recipientPubkey env payer fd = Inr payer)"
  by (cases payer) (auto simp: recipientPubkey_def new_PublicKey_def)

theorem unparsable_recipient_witness:
  "\<not> valid_key sample_solana_env ''not a key''
   \<and> recipientPubkey sample_solana_env sample_payer
        (sample_formData\<lparr>recipientAddress := ''not a key''\<rparr>) = Inr sample_payer
   \<and> recipientPubkey sample_solana_env sample_payer
        (sample_formData\<lparr>recipientAddress := []\<rparr>) = Inr sample_payer"
proof -
  have v: "\<not> valid_key sample_solana_env ''not a key''"
    by (simp add: sample_solana_env_def)
  from unparsable_recipient_is_payer
         [of sample_solana_env sample_payer "sample_formData\<lparr>recipientAddress := ''not a key''\<rparr>"]
       unparsable_recipient_is_payer
         [of sample_solana_env sample_payer "sample_formData\<lparr>recipientAddress := []\<rparr>"]
  show ?thesis using v by simp
qed


section \<open>The fallback verification\<close>

lemma getLinkToken_failed:
  "\<not> link_token_received r \<Longrightarrow>
   getLinkToken (Some k) r ui =
     ui\<lparr>loading := False, requests := requests ui @ [''/api/plaid/create-link-token''],
        error := Some ''Could not initialize bank connection. Use fallback method instead.'',
        fallbackMode := True\<rparr>"
proof (cases r)
  case FetchFailed
  then show ?thesis by (simp add: getLinkToken_def Let_def)
next
  case (Fetched st b)
  assume "\<not> link_token_received r"
  with Fetched show ?thesis
    by (cases b) (auto simp: getLinkToken_def link_token_received_def Let_def)
qed

lemma handleSuccess_failed:
  "\<not> bank_account_received r \<Longrightarrow>
   handleSuccess (Some k) onV force r (ui, w) =
     (ui\<lparr>loading := False, requests := requests ui @ [''/api/plaid/exchange-token''],
         error := Some ''Failed to complete verification. Please try the fallback method.'',
         fallbackMode := True\<rparr>, w)"
proof (cases r)
  case FetchFailed
  then show ?thesis by (simp add: handleSuccess_def Let_def)
next
  case (Fetched st b)
  assume "\<not> bank_account_received r"
  with Fetched show ?thesis
    by (cases b; cases "j_success (the b)"; cases "j_bankAccount (the b)")
       (simp_all add: handleSuccess_def bank_account_received_def Let_def)
qed

lemma handleFallbackVerification_wizard:
  "handleFallbackVerification onBankVerified (Some forceAdvance) (ui, w) =
     (ui\<lparr>loading := True, success := True\<rparr>,
      w\<lparr>verifiedBankAccount := Some fallbackBankAccount,
        toasts := toasts w @ [''Verification Successful''],
        currentStep := 4\<rparr>)"
  by (simp add: handleFallbackVerification_def onBankVerified_def)

lemma gate_of_fallback:
  "verifiedBankAccount w = Some fallbackBankAccount \<Longrightarrow>
   parseFloat (tokenSupply (formData w)) = Num s \<Longrightarrow>
   fst (validateStep 3 w) = (s \<le> 5000)"
  by (simp add: validateStep_3 js_gt_def fallbackBankAccount_def not_less)

lemma submit_of_fallback:
  "verifiedBankAccount w = Some fallbackBankAccount \<Longrightarrow> publicKey w \<noteq> None \<Longrightarrow> wallet w \<Longrightarrow>
   parseFloat (tokenSupply d) = Num s \<Longrightarrow>
   (snd (onSubmit d w) = Some d) = (s \<le> 5000)"
  by (simp add: onSubmit_gate js_gt_def fallbackBankAccount_def not_less)

text \<open>
  Claim C9. When the link-token request or the token exchange fails, the component shows
  the screen that offers ``Use Fallback Method''. That handler sends no request to the
  server (so nothing reaches the aggregator or \<open>exchangePublicToken\<close>) and hands the
  form the fixed snapshot of ``Bank of America'', ``Checking Account'', mask 1234, with
  current and available balance 5000; the form records it as the verified bank account
  and moves to step 4. From then on the gate lets a supply through exactly when it is at
  most 5000. \<open>forceAdvance\<close> installs the same snapshot when nothing is verified yet.
\<close>

theorem fallback_verifies_without_bank_link:
  assumes "\<not> success ui"
  shows "(\<not> link_token_received r1 \<longrightarrow>
            render (getLinkToken (Some k) r1 ui) = FallbackErrorView)
       \<and> (\<not> bank_account_received r2 \<longrightarrow>
            render (fst (handleSuccess (Some k) onBankVerified (Some forceAdvance) r2 (ui, w)))
              = FallbackErrorView
            \<and> snd (handleSuccess (Some k) onBankVerified (Some forceAdvance) r2 (ui, w)) = w)
       \<and> requests (fst (handleFallbackVerification onBankVerified (Some forceAdvance) (ui, w)))
           = requests ui
       \<and> verifiedBankAccount (snd (handleFallbackVerification onBankVerified (Some forceAdvance) (ui, w)))
           = Some \<lparr>institutionName = ''Bank of America'', accountName = ''Checking Account'',
                   accountMask = ''1234'', currentBalance = Num 5000,
                   availableBalance = Num 5000\<rparr>
       \<and> currentStep (snd (handleFallbackVerification onBankVerified (Some forceAdvance) (ui, w))) = 4
       \<and> (parseFloat (tokenSupply (formData w)) = Num s \<longrightarrow>
            fst (validateStep 3
                  (snd (handleFallbackVerification onBankVerified (Some forceAdvance) (ui, w))))
              = (s \<le> 5000))
       \<and> (publicKey w \<noteq> None \<and> wallet w \<and> parseFloat (tokenSupply d) = Num s' \<longrightarrow>
            (snd (onSubmit d
                   (snd (handleFallbackVerification onBankVerified (Some forceAdvance) (ui, w))))
               = Some d)
              = (s' \<le> 5000))
       \<and> (verifiedBankAccount w = None \<longrightarrow>
            verifiedBankAccount (forceAdvance w) = Some fallbackBankAccount
            \<and> currentStep (forceAdvance w) = 4)"
proof -
  let ?w' = "w\<lparr>verifiedBankAccount := Some fallbackBankAccount,
                toasts := toasts w @ [''Verification Successful''], currentStep := 4\<rparr>"
  have v: "verifiedBankAccount ?w' = Some fallbackBankAccount" by simp
  have g: "parseFloat (tokenSupply (formData w)) = Num s \<Longrightarrow> fst (validateStep 3 ?w') = (s \<le> 5000)"
    using gate_of_fallback [OF v, of s] by simp
  have o: "publicKey w \<noteq> None \<Longrightarrow> wallet w \<Longrightarrow> parseFloat (tokenSupply d) = Num s' \<Longrightarrow>
           (snd (onSubmit d ?w') = Some d) = (s' \<le> 5000)"
    using submit_of_fallback [OF v, of d s'] by simp
  show ?thesis
    using assms g o
    by (simp add: getLinkToken_failed handleSuccess_failed handleFallbackVerification_wizard
          render_def forceAdvance_def fallbackBankAccount_def)
qed

theorem fallback_verifies_witness:
  "\<not> success sample_ui
   \<and> \<not> link_token_received (Fetched 500 None)
   \<and> render (getLinkToken (Some sample_payer) (Fetched 500 None) sample_ui) = FallbackErrorView
   \<and> verifiedBankAccount sample_unverified = None
   \<and> verifiedBankAccount
        (snd (handleFallbackVerification onBankVerified (Some forceAdvance)
               (sample_ui, sample_unverified)))
       = Some fallbackBankAccount
   \<and> fst (validateStep 3
            (snd (handleFallbackVerification onBankVerified (Some forceAdvance)
                   (sample_ui, sample_unverified))))"
proof -
  have a: "\<not> success sample_ui" by (simp add: sample_ui_def)
  have b: "\<not> link_token_received (Fetched 500 None)" by (simp add: link_token_received_def)
  have c: "parseFloat (tokenSupply (formData sample_unverified)) = Num 5000"
    by (simp add: sample_unverified_def sample_wizard_def sample_formData_def parseFloat_5000)
  have d: "verifiedBankAccount sample_unverified = None" by (simp add: sample_unverified_def)
  from fallback_verifies_without_bank_link
         [OF a, of "Fetched 500 None" sample_payer _ sample_unverified 5000]
  show ?thesis using a b c d by (simp add: fallbackBankAccount_def)
qed


section \<open>Facts about the tables\<close>

lemma floor_int_plus_half: "\<lfloor>(of_int k :: rat) + 1 / 2\<rfloor> = k"
  by linarith

lemma decimal_12_2_cents_eq:
  "decimal_12_2 (of_int k / 100) =
     (if 10 ^ 10 \<le> \<bar>of_int k / 100 :: rat\<bar> then Inl DatabaseError else Inr (of_int k / 100))"
proof -
  have a: "(of_int k / 100 :: rat) * 100 + 1 / 2 = of_int k + 1 / 2" by simp
  have b: "- (of_int k / 100 :: rat) * 100 + 1 / 2 = of_int (- k) + 1 / 2" by simp
  show ?thesis
    unfolding decimal_12_2_def Let_def a b floor_int_plus_half by simp
qed

lemma decimal_12_2_int:
  assumes "\<bar>n\<bar> < 10 ^ 10"
  shows "decimal_12_2 (of_int n) = Inr (of_int n)"
proof -
  have "\<bar>of_int n :: rat\<bar> < 10 ^ 10"
    using assms by (metis of_int_abs of_int_less_iff of_int_numeral of_int_power)
  then show ?thesis
    using decimal_12_2_cents_eq [of "n * 100"] by simp
qed

lemma decimal_12_2_110: "decimal_12_2 110 = Inr 110"
  using decimal_12_2_int [of 110] by simp

lemma decimal_12_2_100: "decimal_12_2 100 = Inr 100"
  using decimal_12_2_int [of 100] by simp

lemma decimal_12_2_1000000: "decimal_12_2 1000000 = Inr 1000000"
  using decimal_12_2_int [of 1000000] by simp

lemma decimal_12_2_1_234: "decimal_12_2 (1234 / 1000) = Inr (123 / 100)"
  by code_simp

lemma walletAddressSchema_wallet_body:
  "32 \<le> length w \<Longrightarrow> length w \<le> 44 \<Longrightarrow> walletAddressSchema (wallet_body w) = Some w"
  by (simp add: walletAddressSchema_def wallet_body_def field_def address_string_def)

lemma length_sample_wallet: "length sample_wallet = 44"
  by (simp add: sample_wallet_def)

lemma length_sample_token: "length sample_token = 43"
  by (simp add: sample_token_def)

lemma mintStablecoinSchema_mint_body:
  "32 \<le> length w \<Longrightarrow> length w \<le> 44 \<Longrightarrow> 32 \<le> length t \<Longrightarrow> length t \<le> 44 \<Longrightarrow> 0 < a \<Longrightarrow>
   mintStablecoinSchema (mint_body w t a x) =
     Some \<lparr>q_walletAddress = w, q_tokenAddress = t, q_amount = a, q_transactionId = Some x\<rparr>"
  by (simp add: mintStablecoinSchema_def mint_body_def field_def address_string_def)

lemma sample_link:
  "exchangePublicToken sample_env ''public-sandbox-1'' sample_wallet empty_database =
     (sample_linked,
      Inr \<lparr>itemId = ''item-1'', accessToken = ''access-sandbox-1'',
           x_institutionName = ''First Platypus Bank'', x_accountName = ''Plaid Checking'',
           x_accountMask = ''0000'', x_currentBalance = 110, x_availableBalance = 100\<rparr>)"
  by (simp add: exchangePublicToken_def link_values_def sample_env_def sample_plaid_def
        empty_database_def truthy_string_def find_account_def plaidItem_def or_null_def
        or_default_def truthy_number_def storePlaidItem_def select_plaid_items_by_wallet_def
        insert_plaid_item_def stored_values_def decimal_12_2_opt_def decimal_12_2_110
        decimal_12_2_100 sample_linked_def sample_row_def plaid_item_values.extend_def
        sample_wallet_def Let_def)

section \<open>Looking up a wallet without a bank link\<close>

lemma getBankAccountInfo_not_found:
  assumes "db_read_ok e" and "\<forall>r \<in> set (plaid_items db). wallet_address r \<noteq> w"
  shows "getBankAccountInfo e w db = (db, Inr None)"
proof -
  have "filter (\<lambda>r. wallet_address r = w) (plaid_items db) = []"
    using assms(2) by (simp add: filter_empty_conv)
  then show ?thesis
    using assms(1) by (simp add: getBankAccountInfo_def select_plaid_items_by_wallet_def)
qed

text \<open>
  Claim C8. For a wallet address without a row in \<open>plaid_items\<close>, with the database
  answering the lookup, \<open>getBankAccountInfo\<close> returns \<open>null\<close> and throws nothing, and
  \<open>POST /api/plaid/account-info\<close> with that address (a string of 32 to 44 characters,
  as the route's schema demands) answers 404; neither changes the database.
\<close>

theorem no_bank_link_is_not_found:
  assumes "walletAddressSchema b = Some w"
    and "db_read_ok e"
    and "\<forall>r \<in> set (plaid_items db). wallet_address r \<noteq> w"
  shows "getBankAccountInfo e w db = (db, Inr None)
       \<and> account_info_route e b db
           = (db, \<lparr>status = 404, body = ErrorBody ''No linked bank account found''\<rparr>)"
  using assms(1) getBankAccountInfo_not_found [OF assms(2,3)]
  by (simp add: account_info_route_def)

theorem no_bank_link_witness:
  "walletAddressSchema (wallet_body sample_wallet) = Some sample_wallet
   \<and> db_read_ok sample_env
   \<and> plaid_items empty_database = []
   \<and> getBankAccountInfo sample_env sample_wallet empty_database = (empty_database, Inr None)
   \<and> status (snd (account_info_route sample_env (wallet_body sample_wallet) empty_database)) = 404"
proof -
  have a: "walletAddressSchema (wallet_body sample_wallet) = Some sample_wallet"
    by (simp add: walletAddressSchema_wallet_body length_sample_wallet)
  have b: "db_read_ok sample_env" by (simp add: sample_env_def)
  have c: "\<forall>r \<in> set (plaid_items empty_database). wallet_address r \<noteq> sample_wallet"
    by (simp add: empty_database_def)
  from no_bank_link_is_not_found [OF a b c] show ?thesis
    using a b by (simp add: empty_database_def)
qed

text \<open>When the lookup itself fails the function throws and the route answers 500.\<close>

lemma account_info_route_database_down:
  "walletAddressSchema b = Some w \<Longrightarrow> \<not> db_read_ok e \<Longrightarrow>
   account_info_route e b db
     = (db, \<lparr>status = 500, body = ErrorBody ''Failed to get account information''\<rparr>)"
  by (simp add: account_info_route_def getBankAccountInfo_def select_plaid_items_by_wallet_def)


section \<open>Recording a mint\<close>

lemma select_first:
  "db_read_ok e \<Longrightarrow> filter (\<lambda>r. wallet_address r = w) (plaid_items db) = item # rest \<Longrightarrow>
   select_plaid_items_by_wallet e db w = Inr [item]"
  by (simp add: select_plaid_items_by_wallet_def)

lemma select_none:
  "db_read_ok e \<Longrightarrow> filter (\<lambda>r. wallet_address r = w) (plaid_items db) = [] \<Longrightarrow>
   select_plaid_items_by_wallet e db w = Inr []"
  by (simp add: select_plaid_items_by_wallet_def)

lemma filter_Cons_mem: "filter P xs = x # rest \<Longrightarrow> x \<in> set xs \<and> P x"
proof -
  assume "filter P xs = x # rest"
  then have "x \<in> set (filter P xs)" by simp
  then show ?thesis by simp
qed

lemma recordStablecoinMint_linked:
  assumes "db_read_ok e" and "db_write_ok e"
    and "filter (\<lambda>r. wallet_address r = w) (plaid_items db) = item # rest"
    and "decimal_12_2 amount = Inr a"
  shows "recordStablecoinMint e w t amount st txid db =
           Inr (db\<lparr>stablecoin_mints :=
                     stablecoin_mints db @ [mint_row e db w (p_id item) t a st txid],
                   stablecoin_mints_id_seq := stablecoin_mints_id_seq db + 1\<rparr>)"
proof -
  have "item \<in> set (plaid_items db)" using filter_Cons_mem [OF assms(3)] by simp
  then have "\<exists>r \<in> set (plaid_items db). p_id r = p_id item" by blast
  then show ?thesis
    using assms
    by (simp add: recordStablecoinMint_def select_first insert_stablecoin_mint_def)
qed

lemma recordStablecoinMint_unlinked:
  assumes "db_read_ok e" and "filter (\<lambda>r. wallet_address r = w) (plaid_items db) = []"
  shows "recordStablecoinMint e w t amount st txid db
           = Inl (Error ''No Plaid item found for wallet address'')"
  using assms by (simp add: recordStablecoinMint_def select_none)

lemma recordStablecoinMint_Inr:
  assumes "recordStablecoinMint e w t amount st txid db = Inr db'"
  shows "\<exists>item a. item \<in> set (plaid_items db) \<and> wallet_address item = w \<and>
           decimal_12_2 amount = Inr a \<and>
           db' = db\<lparr>stablecoin_mints :=
                      stablecoin_mints db @ [mint_row e db w (p_id item) t a st txid],
                    stablecoin_mints_id_seq := stablecoin_mints_id_seq db + 1\<rparr>"
proof (cases "db_read_ok e")
  case False
  with assms show ?thesis
    by (simp add: recordStablecoinMint_def select_plaid_items_by_wallet_def)
next
  case r: True
  show ?thesis
  proof (cases "filter (\<lambda>r. wallet_address r = w) (plaid_items db)")
    case Nil
    with assms r show ?thesis by (simp add: recordStablecoinMint_unlinked)
  next
    case (Cons item rest)
    have m: "item \<in> set (plaid_items db) \<and> wallet_address item = w"
      using filter_Cons_mem [OF Cons] by simp
    from assms r Cons
    have i: "insert_stablecoin_mint e db w (p_id item) t amount st (or_null txid)
               (if st = ''completed'' then Some (now e) else None) = Inr db'"
      by (simp add: recordStablecoinMint_def select_first)
    then obtain a where a: "decimal_12_2 amount = Inr a" and w: "db_write_ok e"
      by (cases "decimal_12_2 amount") (auto simp: insert_stablecoin_mint_def split: if_splits)
    from recordStablecoinMint_linked [OF r w Cons a, of t st txid] assms m a
    show ?thesis by auto
  qed
qed

text \<open>
  Claim C7, as the code has it. A request that passes the schema is recorded as a
  completed mint when the wallet has a row in \<open>plaid_items\<close> (and the database answers
  and the amount fits the column): the route reads only the id of that row, so the
  outcome is the same whatever balance the row holds, also when the amount exceeds it.
  When the wallet has no such row, \<open>recordStablecoinMint\<close> throws, the route answers 500
  and nothing is inserted.
\<close>

theorem record_mint_checks_link_not_balance:
  assumes "mintStablecoinSchema b = Some r"
    and "db_read_ok e"
  shows "(filter (\<lambda>x. wallet_address x = q_walletAddress r) (plaid_items db) = [] \<longrightarrow>
            record_mint_route e b db
              = (db, \<lparr>status = 500, body = ErrorBody ''Failed to record stablecoin mint''\<rparr>))
       \<and> (db_write_ok e
            \<and> filter (\<lambda>x. wallet_address x = q_walletAddress r) (plaid_items db) = item # rest
            \<and> decimal_12_2 (q_amount r) = Inr a \<longrightarrow>
            record_mint_route e b db
              = (db\<lparr>stablecoin_mints :=
                       stablecoin_mints db @
                         [\<lparr>m_id = stablecoin_mints_id_seq db + 1,
                           m_wallet_address = q_walletAddress r,
                           m_plaid_item_id = Some (p_id item),
                           m_token_address = q_tokenAddress r,
                           m_amount_minted = a,
                           m_status = ''completed'',
                           m_transaction_id = or_null (q_transactionId r),
                           m_created_at = now e,
                           m_completed_at = Some (now e)\<rparr>],
                     stablecoin_mints_id_seq := stablecoin_mints_id_seq db + 1\<rparr>,
                 \<lparr>status = 200, body = SuccessBody\<rparr>))"
  using assms
  by (auto simp: record_mint_route_def recordStablecoinMint_unlinked recordStablecoinMint_linked)

lemma sample_mint_request:
  "mintStablecoinSchema (mint_body sample_wallet sample_token 1000000 ''5hG'') =
     Some \<lparr>q_walletAddress = sample_wallet, q_tokenAddress = sample_token, q_amount = 1000000,
           q_transactionId = Some ''5hG''\<rparr>"
  by (simp add: mintStablecoinSchema_mint_body length_sample_wallet length_sample_token)

theorem record_mint_unlinked_wallet_rejected:
  "mintStablecoinSchema (mint_body sample_wallet sample_token 1000000 ''5hG'') \<noteq> None
   \<and> record_mint_route sample_env (mint_body sample_wallet sample_token 1000000 ''5hG'')
        empty_database
       = (empty_database, \<lparr>status = 500, body = ErrorBody ''Failed to record stablecoin mint''\<rparr>)"
  by (simp add: sample_mint_request record_mint_route_def recordStablecoinMint_unlinked
        sample_env_def empty_database_def)

theorem record_mint_witness:
  "available_balance sample_row = Some 100
   \<and> record_mint_route sample_env (mint_body sample_wallet sample_token 1000000 ''5hG'')
        sample_linked
       = (sample_linked
            \<lparr>stablecoin_mints :=
               [\<lparr>m_id = 1, m_wallet_address = sample_wallet, m_plaid_item_id = Some 1,
                 m_token_address = sample_token, m_amount_minted = 1000000,
                 m_status = ''completed'', m_transaction_id = Some ''5hG'',
                 m_created_at = 1, m_completed_at = Some 1\<rparr>],
             stablecoin_mints_id_seq := 1\<rparr>,
          \<lparr>status = 200, body = SuccessBody\<rparr>)"
proof -
  have r: "db_read_ok sample_env" and w: "db_write_ok sample_env" and n: "now sample_env = 1"
    by (simp_all add: sample_env_def)
  have f: "filter (\<lambda>x. wallet_address x = sample_wallet) (plaid_items sample_linked)
             = sample_row # []"
    by (simp add: sample_linked_def sample_row_def)
  from record_mint_checks_link_not_balance
         [OF sample_mint_request r, of sample_linked sample_row "[]" 1000000]
  show ?thesis
    using w n f decimal_12_2_1000000
    by (simp add: sample_linked_def sample_row_def or_null_def truthy_string_def)
qed


section \<open>Reading a mint back\<close>

lemma decimal_12_2_cents_Inr: "decimal_12_2 (of_int k / 100) = Inr a \<Longrightarrow> a = of_int k / 100"
  by (simp add: decimal_12_2_cents_eq split: if_splits)

text \<open>
  Claim C5, as the code has it. After \<open>recordStablecoinMint(w, t, amount, "completed",
  txid)\<close> has succeeded, the answer of \<open>POST /api/plaid/mint-history\<close> for \<open>w\<close> (with the
  database answering) contains a completed record with wallet address \<open>w\<close> and token
  address \<open>t\<close>, whose amount is \<open>amount\<close> as the \<open>decimal(12, 2)\<close> column stores it, that
  is rounded to two decimal places, and whose transaction id is \<open>txid || null\<close>. So an
  amount in whole hundredths and a non-empty transaction id are reproduced as given.
\<close>

theorem mint_record_round_trip:
  assumes "recordStablecoinMint e w t amount ''completed'' txid db = Inr db'"
    and "walletAddressSchema b = Some w"
    and "db_read_ok e'"
  shows "\<exists>history r.
           mint_history_route e' b db' = \<lparr>status = 200, body = HistoryBody history\<rparr>
           \<and> r \<in> set history
           \<and> m_wallet_address r = w
           \<and> m_token_address r = t
           \<and> m_status r = ''completed''
           \<and> decimal_12_2 amount = Inr (m_amount_minted r)
           \<and> m_transaction_id r = or_null txid
           \<and> (\<forall>k. amount = of_int k / 100 \<longrightarrow> m_amount_minted r = amount)
           \<and> (\<forall>x. txid = Some x \<and> x \<noteq> [] \<longrightarrow> m_transaction_id r = Some x)"
proof -
  from recordStablecoinMint_Inr [OF assms(1)]
  obtain item a where "item \<in> set (plaid_items db)" and "wallet_address item = w"
    and a: "decimal_12_2 amount = Inr a"
    and d: "db' = db\<lparr>stablecoin_mints :=
                      stablecoin_mints db @ [mint_row e db w (p_id item) t a ''completed'' txid],
                    stablecoin_mints_id_seq := stablecoin_mints_id_seq db + 1\<rparr>"
    by (elim exE conjE) (rule that)
  let ?r = "mint_row e db w (p_id item) t a ''completed'' txid"
  let ?h = "sort_key m_created_at (filter (\<lambda>r. m_wallet_address r = w) (stablecoin_mints db'))"
  have route: "mint_history_route e' b db' = \<lparr>status = 200, body = HistoryBody ?h\<rparr>"
    using assms(2,3) by (simp add: mint_history_route_def select_mints_by_wallet_def)
  have mem: "?r \<in> set ?h" using d by simp
  have cents: "\<forall>k. amount = of_int k / 100 \<longrightarrow> m_amount_minted ?r = amount"
  proof (intro allI impI)
    fix k
    assume k: "amount = of_int k / 100"
    from a have "decimal_12_2 (of_int k / 100) = Inr a" unfolding k .
    then have "a = of_int k / 100" by (rule decimal_12_2_cents_Inr)
    then show "m_amount_minted ?r = amount" unfolding k by simp
  qed
  have tx: "\<forall>x. txid = Some x \<and> x \<noteq> [] \<longrightarrow> m_transaction_id ?r = Some x"
    by (simp add: or_null_def truthy_string_def)
  show ?thesis
    using route mem a cents tx
    by (intro exI [of _ ?h] exI [of _ ?r]) simp
qed

lemma sample_record_5000:
  "recordStablecoinMint sample_env sample_wallet sample_token 5000 ''completed'' (Some ''5hG'')
     sample_linked
   = Inr (sample_linked
            \<lparr>stablecoin_mints :=
               [\<lparr>m_id = 1, m_wallet_address = sample_wallet, m_plaid_item_id = Some 1,
                 m_token_address = sample_token, m_amount_minted = 5000,
                 m_status = ''completed'', m_transaction_id = Some ''5hG'',
                 m_created_at = 1, m_completed_at = Some 1\<rparr>],
             stablecoin_mints_id_seq := 1\<rparr>)"
proof -
  have r: "db_read_ok sample_env" and w: "db_write_ok sample_env" and n: "now sample_env = 1"
    by (simp_all add: sample_env_def)
  have f: "filter (\<lambda>x. wallet_address x = sample_wallet) (plaid_items sample_linked)
             = sample_row # []"
    by (simp add: sample_linked_def sample_row_def)
  have d: "decimal_12_2 5000 = Inr 5000" using decimal_12_2_int [of 5000] by simp
  from recordStablecoinMint_linked [OF r w f d, of sample_token "''completed''" "Some ''5hG''"]
  show ?thesis
    using n by (simp add: sample_linked_def sample_row_def or_null_def truthy_string_def)
qed

theorem mint_record_round_trip_witness:
  "\<exists>history r.
     mint_history_route sample_env (wallet_body sample_wallet)
       (sample_linked
          \<lparr>stablecoin_mints :=
             [\<lparr>m_id = 1, m_wallet_address = sample_wallet, m_plaid_item_id = Some 1,
               m_token_address = sample_token, m_amount_minted = 5000,
               m_status = ''completed'', m_transaction_id = Some ''5hG'',
               m_created_at = 1, m_completed_at = Some 1\<rparr>],
           stablecoin_mints_id_seq := 1\<rparr>)
       = \<lparr>status = 200, body = HistoryBody history\<rparr>
     \<and> r \<in> set history
     \<and> m_wallet_address r = sample_wallet
     \<and> m_token_address r = sample_token
     \<and> m_amount_minted r = 5000
     \<and> m_transaction_id r = Some ''5hG''"
proof -
  have a: "walletAddressSchema (wallet_body sample_wallet) = Some sample_wallet"
    by (simp add: walletAddressSchema_wallet_body length_sample_wallet)
  have b: "db_read_ok sample_env" by (simp add: sample_env_def)
  have c: "(5000 :: rat) = of_int 500000 / 100" by simp
  from mint_record_round_trip [OF sample_record_5000 a b]
  obtain history r where
    h: "mint_history_route sample_env (wallet_body sample_wallet)
          (sample_linked
             \<lparr>stablecoin_mints :=
                [\<lparr>m_id = 1, m_wallet_address = sample_wallet, m_plaid_item_id = Some 1,
                  m_token_address = sample_token, m_amount_minted = 5000,
                  m_status = ''completed'', m_transaction_id = Some ''5hG'',
                  m_created_at = 1, m_completed_at = Some 1\<rparr>],
              stablecoin_mints_id_seq := 1\<rparr>)
          = \<lparr>status = 200, body = HistoryBody history\<rparr>"
    and m: "r \<in> set history" "m_wallet_address r = sample_wallet"
      "m_token_address r = sample_token"
    and k: "\<forall>k. (5000 :: rat) = of_int k / 100 \<longrightarrow> m_amount_minted r = 5000"
    and x: "\<forall>x. Some ''5hG'' = Some x \<and> x \<noteq> [] \<longrightarrow> m_transaction_id r = Some x"
    by auto
  from k c have "m_amount_minted r = 5000" by blast
  moreover from x have "m_transaction_id r = Some ''5hG''" by simp
  ultimately show ?thesis using h m by blast
qed

text \<open>
  The claim as stated fails: the amount 1.234 with an empty transaction id is recorded
  successfully and read back as 1.23 with no transaction id.
\<close>

theorem mint_record_not_reproduced:
  "recordStablecoinMint sample_env sample_wallet sample_token (1234 / 1000) ''completed''
     (Some []) sample_linked
   = Inr (sample_linked
            \<lparr>stablecoin_mints :=
               [\<lparr>m_id = 1, m_wallet_address = sample_wallet, m_plaid_item_id = Some 1,
                 m_token_address = sample_token, m_amount_minted = 123 / 100,
                 m_status = ''completed'', m_transaction_id = None,
                 m_created_at = 1, m_completed_at = Some 1\<rparr>],
             stablecoin_mints_id_seq := 1\<rparr>)
   \<and> mint_history_route sample_env (wallet_body sample_wallet)
        (sample_linked
           \<lparr>stablecoin_mints :=
              [\<lparr>m_id = 1, m_wallet_address = sample_wallet, m_plaid_item_id = Some 1,
                m_token_address = sample_token, m_amount_minted = 123 / 100,
                m_status = ''completed'', m_transaction_id = None,
                m_created_at = 1, m_completed_at = Some 1\<rparr>],
            stablecoin_mints_id_seq := 1\<rparr>)
       = \<lparr>status = 200,
          body = HistoryBody
                   [\<lparr>m_id = 1, m_wallet_address = sample_wallet, m_plaid_item_id = Some 1,
                     m_token_address = sample_token, m_amount_minted = 123 / 100,
                     m_status = ''completed'', m_transaction_id = None,
                     m_created_at = 1, m_completed_at = Some 1\<rparr>]\<rparr>
   \<and> (123 / 100 :: rat) \<noteq> 1234 / 1000"
proof -
  have r: "db_read_ok sample_env" and w: "db_write_ok sample_env" and n: "now sample_env = 1"
    by (simp_all add: sample_env_def)
  have f: "filter (\<lambda>x. wallet_address x = sample_wallet) (plaid_items sample_linked)
             = sample_row # []"
    by (simp add: sample_linked_def sample_row_def)
  have a: "walletAddressSchema (wallet_body sample_wallet) = Some sample_wallet"
    by (simp add: walletAddressSchema_wallet_body length_sample_wallet)
  from recordStablecoinMint_linked
         [OF r w f decimal_12_2_1_234, of sample_token "''completed''" "Some []"]
  show ?thesis
    using n a r
    by (simp add: sample_linked_def sample_row_def or_null_def truthy_string_def
          mint_history_route_def select_mints_by_wallet_def)
qed


section \<open>Refreshing the balance\<close>

lemma truthy_number_zero [simp]: "truthy_number (Some 0) = False" "truthy_number None = False"
  by (simp_all add: truthy_number_def)

lemma getBankAccountInfo_linked:
  assumes "db_read_ok e"
    and "filter (\<lambda>r. wallet_address r = w) (plaid_items db) = item # rest"
    and "accountsBalanceGet (plaidClient e) (access_token item) (account_id item)
           = Inr (accountBalance # others)"
  shows "getBankAccountInfo e w db =
           ((case update_balances e db (p_id item) (fst (balance_columns accountBalance))
                   (snd (balance_columns accountBalance)) of
               Inr d \<Rightarrow> d
             | Inl dbUpdateError \<Rightarrow> db),
            Inr (Some \<lparr>i_institutionName = institution_name item,
                       i_accountName = account_name item,
                       i_accountMask = account_mask item,
                       i_currentBalance = bal_current accountBalance,
                       i_availableBalance =
                         (if truthy_number (bal_available accountBalance)
                          then bal_available accountBalance
                          else bal_current accountBalance)\<rparr>))"
  using assms by (simp add: getBankAccountInfo_def select_first Let_def)

lemma update_balances_rows:
  assumes "db_write_ok e" and "decimal_12_2_opt cur = Inr c" and "decimal_12_2_opt avail = Inr a"
  shows "update_balances e db rid cur avail =
           Inr (db\<lparr>plaid_items :=
                     map (\<lambda>r. if p_id r = rid
                               then r\<lparr>current_balance := c, available_balance := a,
                                      last_updated := now e\<rparr>
                               else r)
                       (plaid_items db)\<rparr>)"
  using assms by (simp add: update_balances_def)

text \<open>
  Claim C10, as the code has it. When the aggregator reports an available balance of
  exactly 0 for a linked wallet, \<open>getBankAccountInfo\<close> returns the reported current
  balance as \<open>availableBalance\<close>. What it writes to the row (when the update succeeds) is
  the same value for both columns: \<open>null\<close> when the reported current balance is 0 or
  absent, and otherwise the current balance, so \<open>available_balance\<close> is then not \<open>null\<close>
  but the current balance.
\<close>

theorem zero_available_balance_takes_current:
  assumes "db_read_ok e"
    and "filter (\<lambda>r. wallet_address r = w) (plaid_items db) = item # rest"
    and "accountsBalanceGet (plaidClient e) (access_token item) (account_id item)
           = Inr (accountBalance # others)"
    and "bal_available accountBalance = Some 0"
  shows "(\<exists>info. snd (getBankAccountInfo e w db) = Inr (Some info)
            \<and> i_availableBalance info = bal_current accountBalance
            \<and> i_currentBalance info = bal_current accountBalance)
       \<and> (db_write_ok e \<and> (bal_current accountBalance = None \<or> bal_current accountBalance = Some 0)
            \<longrightarrow> plaid_items (fst (getBankAccountInfo e w db))
                  = map (\<lambda>r. if p_id r = p_id item
                              then r\<lparr>current_balance := None, available_balance := None,
                                     last_updated := now e\<rparr>
                              else r)
                      (plaid_items db))
       \<and> (db_write_ok e \<and> bal_current accountBalance = Some x \<and> x \<noteq> 0
            \<and> decimal_12_2 x = Inr c
            \<longrightarrow> plaid_items (fst (getBankAccountInfo e w db))
                  = map (\<lambda>r. if p_id r = p_id item
                              then r\<lparr>current_balance := Some c, available_balance := Some c,
                                     last_updated := now e\<rparr>
                              else r)
                      (plaid_items db))"
proof -
  note g = getBankAccountInfo_linked [OF assms(1,2,3)]
  have a: "truthy_number (bal_available accountBalance) = False"
    using assms(4) by simp
  have info: "\<exists>info. snd (getBankAccountInfo e w db) = Inr (Some info)
            \<and> i_availableBalance info = bal_current accountBalance
            \<and> i_currentBalance info = bal_current accountBalance"
    unfolding g using a by simp
  have zero: "db_write_ok e \<and> (bal_current accountBalance = None \<or> bal_current accountBalance = Some 0)
            \<longrightarrow> plaid_items (fst (getBankAccountInfo e w db))
                  = map (\<lambda>r. if p_id r = p_id item
                              then r\<lparr>current_balance := None, available_balance := None,
                                     last_updated := now e\<rparr>
                              else r)
                      (plaid_items db)"
  proof (intro impI, elim conjE)
    assume w: "db_write_ok e"
      and z: "bal_current accountBalance = None \<or> bal_current accountBalance = Some 0"
    from z have c: "truthy_number (bal_current accountBalance) = False" by auto
    have "balance_columns accountBalance = (None, None)"
      using a c by (simp add: balance_columns_def)
    then show "plaid_items (fst (getBankAccountInfo e w db))
                  = map (\<lambda>r. if p_id r = p_id item
                              then r\<lparr>current_balance := None, available_balance := None,
                                     last_updated := now e\<rparr>
                              else r)
                      (plaid_items db)"
      unfolding g using w by (simp add: update_balances_def decimal_12_2_opt_def)
  qed
  have nonzero: "db_write_ok e \<and> bal_current accountBalance = Some x \<and> x \<noteq> 0
            \<and> decimal_12_2 x = Inr c
            \<longrightarrow> plaid_items (fst (getBankAccountInfo e w db))
                  = map (\<lambda>r. if p_id r = p_id item
                              then r\<lparr>current_balance := Some c, available_balance := Some c,
                                     last_updated := now e\<rparr>
                              else r)
                      (plaid_items db)"
  proof (intro impI, elim conjE)
    assume w: "db_write_ok e" and s: "bal_current accountBalance = Some x" and n: "x \<noteq> 0"
      and d: "decimal_12_2 x = Inr c"
    have "balance_columns accountBalance = (Some x, Some x)"
      using a s n by (simp add: balance_columns_def truthy_number_def)
    then show "plaid_items (fst (getBankAccountInfo e w db))
                  = map (\<lambda>r. if p_id r = p_id item
                              then r\<lparr>current_balance := Some c, available_balance := Some c,
                                     last_updated := now e\<rparr>
                              else r)
                      (plaid_items db)"
      unfolding g using w d by (simp add: update_balances_def decimal_12_2_opt_def)
  qed
  from info zero nonzero show ?thesis by blast
qed

lemma sample_zero_available:
  "getBankAccountInfo sample_env_zero_available sample_wallet sample_linked =
     (sample_linked
        \<lparr>plaid_items :=
           [sample_row\<lparr>current_balance := Some 110, available_balance := Some 110,
                       last_updated := 2\<rparr>]\<rparr>,
      Inr (Some \<lparr>i_institutionName = Some ''First Platypus Bank'',
                 i_accountName = Some ''Plaid Checking'',
                 i_accountMask = Some ''0000'',
                 i_currentBalance = Some 110,
                 i_availableBalance = Some 110\<rparr>))"
proof -
  have r: "db_read_ok sample_env_zero_available"
    by (simp add: sample_env_zero_available_def)
  have f: "filter (\<lambda>x. wallet_address x = sample_wallet) (plaid_items sample_linked)
             = sample_row # []"
    by (simp add: sample_linked_def sample_row_def)
  have b: "accountsBalanceGet (plaidClient sample_env_zero_available) (access_token sample_row)
             (account_id sample_row)
           = Inr (\<lparr>bal_current = Some 110, bal_available = Some 0\<rparr> # [])"
    by (simp add: sample_env_zero_available_def sample_plaid_def)
  show ?thesis
    unfolding getBankAccountInfo_linked [OF r f b]
    by (simp add: balance_columns_def truthy_number_def update_balances_def decimal_12_2_opt_def
          decimal_12_2_110 sample_env_zero_available_def sample_linked_def sample_row_def)
qed

text \<open>
  The claim as stated fails: with a reported available balance of 0 and a current balance
  of 110, the column \<open>available_balance\<close> is set to 110, not to \<open>null\<close>.
\<close>

theorem zero_available_balance_not_stored_as_null:
  "plaid_items (fst (getBankAccountInfo sample_env_zero_available sample_wallet sample_linked))
     = [sample_row\<lparr>current_balance := Some 110, available_balance := Some 110,
                   last_updated := 2\<rparr>]
   \<and> available_balance
       (sample_row\<lparr>current_balance := Some 110, available_balance := Some 110,
                   last_updated := 2\<rparr>) \<noteq> None"
  by (simp add: sample_zero_available)

theorem zero_available_balance_witness:
  "bal_available \<lparr>bal_current = Some 110, bal_available = Some 0\<rparr> = Some 0
   \<and> (\<exists>info. snd (getBankAccountInfo sample_env_zero_available sample_wallet sample_linked)
                = Inr (Some info)
              \<and> i_availableBalance info = Some 110)
   \<and> plaid_items (fst (getBankAccountInfo sample_env_zero_available sample_wallet sample_linked))
       = map (\<lambda>r. if p_id r = p_id sample_row
                   then r\<lparr>current_balance := Some 110, available_balance := Some 110,
                          last_updated := now sample_env_zero_available\<rparr>
                   else r)
           (plaid_items sample_linked)"
proof -
  have r: "db_read_ok sample_env_zero_available" and w: "db_write_ok sample_env_zero_available"
    by (simp_all add: sample_env_zero_available_def)
  have f: "filter (\<lambda>x. wallet_address x = sample_wallet) (plaid_items sample_linked)
             = sample_row # []"
    by (simp add: sample_linked_def sample_row_def)
  have b: "accountsBalanceGet (plaidClient sample_env_zero_available) (access_token sample_row)
             (account_id sample_row)
           = Inr (\<lparr>bal_current = Some 110, bal_available = Some 0\<rparr> # [])"
    by (simp add: sample_env_zero_available_def sample_plaid_def)
  have z: "bal_available \<lparr>bal_current = Some 110, bal_available = Some 0\<rparr> = Some 0" by simp
  from zero_available_balance_takes_current [OF r f b z, of 110 110]
  show ?thesis using w decimal_12_2_110 by auto
qed


section \<open>One bank link per wallet\<close>

lemma stored_values_keys:
  "stored_values v = Inr v' \<Longrightarrow> wallet_address v' = wallet_address v \<and> item_id v' = item_id v"
  by (auto simp: stored_values_def split: sum.splits)

lemma truncate_extend: "plaid_item_values.truncate (plaid_item_values.extend v m) = v"
  by (cases v) (simp add: plaid_item_values.truncate_def plaid_item_values.extend_def)

lemma truncate_set_values: "plaid_item_values.truncate (set_values v r) = v"
  by (cases v) (simp add: plaid_item_values.truncate_def set_values_def)

lemma set_values_keeps:
  "wallet_address (set_values v r) = wallet_address v" "p_id (set_values v r) = p_id r"
  by (simp_all add: set_values_def)

lemma extend_keeps:
  "wallet_address (plaid_item_values.extend v m) = wallet_address v"
  "p_id (plaid_item_values.extend v \<lparr>p_id = i, last_updated = a, created_at = b\<rparr>) = i"
  by (cases v; simp add: plaid_item_values.extend_def)+

lemma distinct_filter_key:
  "distinct (map f xs) \<Longrightarrow> x \<in> set xs \<Longrightarrow> filter (\<lambda>r. f r = f x) xs = [x]"
proof (induction xs)
  case Nil
  then show ?case by simp
next
  case (Cons a xs)
  show ?case
  proof (cases "a = x")
    case True
    with Cons.prems have "f x \<notin> f ` set xs" by simp
    then have "\<forall>r \<in> set xs. f r \<noteq> f x" by (metis imageI)
    then have "filter (\<lambda>r. f r = f x) xs = []" by (simp add: filter_empty_conv)
    with True show ?thesis by simp
  next
    case False
    with Cons.prems have x: "x \<in> set xs" and d: "distinct (map f xs)" by auto
    have "f a \<noteq> f x" using Cons.prems x by auto
    with Cons.IH [OF d x] show ?thesis by simp
  qed
qed

lemma filter_map_keeping:
  "\<forall>x \<in> set xs. f (g x) = f x \<Longrightarrow>
   filter (\<lambda>x. f x = w) (map g xs) = map g (filter (\<lambda>x. f x = w) xs)"
  by (induction xs) simp_all

lemma storePlaidItem_insert:
  assumes ok: "table_ok db"
    and st: "storePlaidItem e db v = Inr db'"
    and none: "filter (\<lambda>r. wallet_address r = wallet_address v) (plaid_items db) = []"
  shows "\<exists>v'. stored_values v = Inr v' \<and>
           plaid_items db' =
             plaid_items db @
               [plaid_item_values.extend v'
                  \<lparr>p_id = plaid_items_id_seq db + 1, last_updated = now e, created_at = now e\<rparr>]
           \<and> plaid_items_id_seq db' = plaid_items_id_seq db + 1"
proof -
  have r: "db_read_ok e"
    using st by (cases "db_read_ok e") (simp_all add: storePlaidItem_def select_plaid_items_by_wallet_def)
  from st r none have i: "insert_plaid_item e db v = Inr db'"
    by (simp add: storePlaidItem_def select_plaid_items_by_wallet_def)
  then obtain v' where v': "stored_values v = Inr v'"
    by (cases "stored_values v") (auto simp: insert_plaid_item_def split: if_splits)
  from i v' show ?thesis
    by (auto simp: insert_plaid_item_def split: if_splits)
qed

lemma storePlaidItem_update:
  assumes ok: "table_ok db"
    and st: "storePlaidItem e db v = Inr db'"
    and some: "filter (\<lambda>r. wallet_address r = wallet_address v) (plaid_items db) = r # rest"
  shows "\<exists>v'. stored_values v = Inr v' \<and>
           plaid_items db' =
             map (\<lambda>x. if p_id x = p_id r then set_values v' x else x) (plaid_items db)
           \<and> plaid_items_id_seq db' = plaid_items_id_seq db"
proof -
  have rd: "db_read_ok e"
    using st by (cases "db_read_ok e") (simp_all add: storePlaidItem_def select_plaid_items_by_wallet_def)
  from st rd some have u: "update_plaid_item e db (p_id r) v = Inr db'"
    by (simp add: storePlaidItem_def select_plaid_items_by_wallet_def)
  then obtain v' where v': "stored_values v = Inr v'"
    by (cases "stored_values v") (auto simp: update_plaid_item_def split: if_splits)
  from u v' show ?thesis
    by (auto simp: update_plaid_item_def split: if_splits)
qed

lemma storePlaidItem_stored:
  assumes ok: "table_ok db" and st: "storePlaidItem e db v = Inr db'"
  shows "table_ok db'
       \<and> (\<exists>r v'. stored_values v = Inr v'
             \<and> filter (\<lambda>r. wallet_address r = wallet_address v) (plaid_items db') = [r]
             \<and> plaid_item_values.truncate r = v')
       \<and> (\<forall>w. w \<noteq> wallet_address v \<longrightarrow>
             filter (\<lambda>r. wallet_address r = w) (plaid_items db')
               = filter (\<lambda>r. wallet_address r = w) (plaid_items db))"
proof (cases "filter (\<lambda>r. wallet_address r = wallet_address v) (plaid_items db)")
  case Nil
  from storePlaidItem_insert [OF ok st Nil]
  obtain v' where v': "stored_values v = Inr v'"
    and rows: "plaid_items db' =
                 plaid_items db @
                   [plaid_item_values.extend v'
                      \<lparr>p_id = plaid_items_id_seq db + 1, last_updated = now e, created_at = now e\<rparr>]"
    and seq: "plaid_items_id_seq db' = plaid_items_id_seq db + 1"
    by (elim exE conjE) (rule that)
  define new where
    "new = plaid_item_values.extend v'
             \<lparr>p_id = plaid_items_id_seq db + 1, last_updated = now e, created_at = now e\<rparr>"
  have rows': "plaid_items db' = plaid_items db @ [new]"
    using rows by (simp add: new_def)
  have wn: "wallet_address new = wallet_address v"
    using stored_values_keys [OF v'] by (simp add: new_def extend_keeps)
  have idn: "p_id new = plaid_items_id_seq db + 1" by (simp add: new_def extend_keeps)
  have tr: "plaid_item_values.truncate new = v'" by (simp add: new_def truncate_extend)
  from Nil have fresh: "\<forall>x \<in> set (plaid_items db). wallet_address x \<noteq> wallet_address v"
    by (simp add: filter_empty_conv)
  from ok have le: "\<forall>x \<in> set (plaid_items db). p_id x \<le> plaid_items_id_seq db"
    by (simp add: table_ok_def list_all_iff)
  have t: "table_ok db'"
  proof -
    have a: "p_id new \<notin> set (map p_id (plaid_items db))"
      using le idn by fastforce
    have b: "wallet_address new \<notin> set (map wallet_address (plaid_items db))"
      using fresh wn by fastforce
    have c: "list_all (\<lambda>r. p_id r \<le> plaid_items_id_seq db') (plaid_items db')"
      using le idn unfolding rows' seq by (simp add: list_all_iff le_Suc_eq)
    from ok a b c show ?thesis
      unfolding table_ok_def rows' by simp
  qed
  have one: "filter (\<lambda>r. wallet_address r = wallet_address v) (plaid_items db') = [new]"
    unfolding rows' using Nil wn by simp
  have others: "\<forall>w. w \<noteq> wallet_address v \<longrightarrow>
             filter (\<lambda>r. wallet_address r = w) (plaid_items db')
               = filter (\<lambda>r. wallet_address r = w) (plaid_items db)"
    unfolding rows' using wn by simp
  from t v' one others tr show ?thesis by blast
next
  case (Cons r rest)
  from storePlaidItem_update [OF ok st Cons]
  obtain v' where v': "stored_values v = Inr v'"
    and rows: "plaid_items db' =
                 map (\<lambda>x. if p_id x = p_id r then set_values v' x else x) (plaid_items db)"
    and seq: "plaid_items_id_seq db' = plaid_items_id_seq db"
    by (elim exE conjE) (rule that)
  let ?g = "\<lambda>x. if p_id x = p_id r then set_values v' x else x"
  have rin: "r \<in> set (plaid_items db)" and rw: "wallet_address r = wallet_address v"
    using filter_Cons_mem [OF Cons] by simp_all
  from ok have dw: "distinct (map wallet_address (plaid_items db))"
    and di: "distinct (map p_id (plaid_items db))"
    by (simp_all add: table_ok_def)
  have "inj_on p_id (set (plaid_items db))"
    using di by (simp add: distinct_map)
  then have only: "\<forall>x \<in> set (plaid_items db). p_id x = p_id r \<longrightarrow> x = r"
    using rin by (auto simp: inj_on_def)
  have kw: "\<forall>x \<in> set (plaid_items db). wallet_address (?g x) = wallet_address x"
    using only rw stored_values_keys [OF v'] by (auto simp: set_values_keeps)
  have ki: "\<forall>x \<in> set (plaid_items db). p_id (?g x) = p_id x"
    by (simp add: set_values_keeps)
  have mw: "map wallet_address (plaid_items db') = map wallet_address (plaid_items db)"
    unfolding rows using kw by (simp add: map_idI)
  have mi: "map p_id (plaid_items db') = map p_id (plaid_items db)"
    unfolding rows using ki by (simp add: map_idI)
  have t: "table_ok db'"
  proof -
    have "list_all (\<lambda>i. i \<le> plaid_items_id_seq db) (map p_id (plaid_items db'))"
      unfolding mi using ok by (simp add: table_ok_def list_all_iff)
    then have "list_all (\<lambda>x. p_id x \<le> plaid_items_id_seq db) (plaid_items db')"
      by (simp add: list_all_iff)
    then show ?thesis
      using ok unfolding table_ok_def mw mi seq by simp
  qed
  have fr: "filter (\<lambda>x. wallet_address x = wallet_address v) (plaid_items db) = [r]"
    using distinct_filter_key [OF dw rin] rw by simp
  have one: "filter (\<lambda>x. wallet_address x = wallet_address v) (plaid_items db')
               = [set_values v' r]"
    unfolding rows filter_map_keeping [OF kw] fr by simp
  have others: "\<forall>w. w \<noteq> wallet_address v \<longrightarrow>
             filter (\<lambda>x. wallet_address x = w) (plaid_items db')
               = filter (\<lambda>x. wallet_address x = w) (plaid_items db)"
  proof (intro allI impI)
    fix w
    assume w: "w \<noteq> wallet_address v"
    have "map ?g (filter (\<lambda>x. wallet_address x = w) (plaid_items db))
                 = filter (\<lambda>x. wallet_address x = w) (plaid_items db)"
    proof (rule map_idI)
      fix x
      assume "x \<in> set (filter (\<lambda>x. wallet_address x = w) (plaid_items db))"
      then show "?g x = x" using only rw w by auto
    qed
    then show "filter (\<lambda>x. wallet_address x = w) (plaid_items db')
                 = filter (\<lambda>x. wallet_address x = w) (plaid_items db)"
      unfolding rows filter_map_keeping [OF kw] by simp
  qed
  from t v' one others truncate_set_values [of v' r] show ?thesis by blast
qed

lemma plaidItem_wallet: "wallet_address (plaidItem w i a n m acct bal) = w"
  by (simp add: plaidItem_def)

lemma link_values_wallet:
  assumes "link_values e pt w = Inr (v, x)"
  shows "wallet_address v = w"
proof (cases "itemPublicTokenExchange (plaidClient e) pt")
  case (Inl err)
  with assms show ?thesis by (simp add: link_values_def)
next
  case (Inr p)
  obtain tok iid where p: "p = (tok, iid)" by (cases p)
  show ?thesis
  proof (cases "itemGet (plaidClient e) tok")
    case (Inl err)
    with assms Inr p show ?thesis by (simp add: link_values_def)
  next
    case ig: (Inr inst)
    show ?thesis
    proof (cases "accountsGet (plaidClient e) tok")
      case (Inl err)
      with assms Inr p ig show ?thesis by (simp add: link_values_def Let_def)
    next
      case ag: (Inr accounts)
      show ?thesis
      proof (cases "find_account accounts")
        case None
        with assms Inr p ig ag show ?thesis by (simp add: link_values_def Let_def)
      next
        case (Some acct)
        show ?thesis
        proof (cases "accountsBalanceGet (plaidClient e) tok (Some (acc_account_id acct))")
          case (Inl err)
          with assms Inr p ig ag Some show ?thesis by (simp add: link_values_def Let_def)
        next
          case bg: (Inr bals)
          with assms Inr p ig ag Some show ?thesis
            by (cases bals) (auto simp: link_values_def Let_def plaidItem_wallet)
        qed
      qed
    qed
  qed
qed

lemma links_stored_Cons:
  assumes "links_stored (c # cs) db"
  shows "\<exists>v x db1.
           link_values (call_env c) (call_publicToken c) (call_walletAddress c) = Inr (v, x)
           \<and> storePlaidItem (call_env c) db v = Inr db1
           \<and> links_stored cs db1
           \<and> complete_links (c # cs) db = complete_links cs db1"
proof (cases "link_values (call_env c) (call_publicToken c) (call_walletAddress c)")
  case (Inl err)
  with assms show ?thesis by simp
next
  case (Inr p)
  obtain v x where p: "p = (v, x)" by (cases p)
  show ?thesis
  proof (cases "storePlaidItem (call_env c) db v")
    case (Inl err)
    with assms Inr p show ?thesis by simp
  next
    case st: (Inr db1)
    with assms Inr p show ?thesis by (simp add: exchangePublicToken_def)
  qed
qed

lemma exchangePublicToken_table_ok:
  assumes "table_ok db"
  shows "table_ok (fst (exchangePublicToken e pt w db))"
proof (cases "link_values e pt w")
  case (Inl err)
  with assms show ?thesis by (simp add: exchangePublicToken_def)
next
  case (Inr p)
  obtain v x where p: "p = (v, x)" by (cases p)
  show ?thesis
  proof (cases "storePlaidItem e db v")
    case (Inl err)
    with assms Inr p show ?thesis by (simp add: exchangePublicToken_def)
  next
    case st: (Inr db1)
    from storePlaidItem_stored [OF assms st] have "table_ok db1" by simp
    with Inr p st show ?thesis by (simp add: exchangePublicToken_def)
  qed
qed

lemma complete_links_table_ok: "table_ok db \<Longrightarrow> table_ok (complete_links cs db)"
  by (induction cs arbitrary: db) (simp_all add: exchangePublicToken_table_ok)

lemma table_ok_at_most_one:
  assumes "table_ok db"
  shows "length (filter (\<lambda>r. wallet_address r = w) (plaid_items db)) \<le> 1"
proof (cases "filter (\<lambda>r. wallet_address r = w) (plaid_items db)")
  case Nil
  then show ?thesis by simp
next
  case (Cons r rest)
  have "r \<in> set (plaid_items db)" and "wallet_address r = w"
    using filter_Cons_mem [OF Cons] by simp_all
  moreover from assms have "distinct (map wallet_address (plaid_items db))"
    by (simp add: table_ok_def)
  ultimately have "filter (\<lambda>x. wallet_address x = w) (plaid_items db) = [r]"
    using distinct_filter_key [of wallet_address "plaid_items db" r] by simp
  then show ?thesis by simp
qed

lemma links_frame:
  "table_ok db \<Longrightarrow> links_stored cs db \<Longrightarrow> filter (\<lambda>c. call_walletAddress c = w) cs = [] \<Longrightarrow>
   filter (\<lambda>r. wallet_address r = w) (plaid_items (complete_links cs db))
     = filter (\<lambda>r. wallet_address r = w) (plaid_items db)"
proof (induction cs arbitrary: db)
  case Nil
  then show ?case by simp
next
  case (Cons c cs)
  from links_stored_Cons [OF Cons.prems(2)]
  obtain v x db1 where lv: "link_values (call_env c) (call_publicToken c) (call_walletAddress c) = Inr (v, x)"
    and st: "storePlaidItem (call_env c) db v = Inr db1"
    and rest: "links_stored cs db1"
    and run: "complete_links (c # cs) db = complete_links cs db1"
    by (elim exE conjE) (rule that)
  from Cons.prems(3) have ne: "call_walletAddress c \<noteq> w"
    and none: "filter (\<lambda>c. call_walletAddress c = w) cs = []"
    by (auto split: if_splits)
  have wv: "wallet_address v = call_walletAddress c" by (rule link_values_wallet [OF lv])
  from storePlaidItem_stored [OF Cons.prems(1) st]
  have ok1: "table_ok db1"
    and same: "filter (\<lambda>r. wallet_address r = w) (plaid_items db1)
                 = filter (\<lambda>r. wallet_address r = w) (plaid_items db)"
    using ne wv by auto
  from Cons.IH [OF ok1 rest none] same run show ?case by simp
qed

text \<open>
  Claim C4. Whatever calls of \<open>exchangePublicToken\<close> are made on a table that satisfies
  its key constraints, no wallet address ever has more than one row in \<open>plaid_items\<close>.
  After a sequence of calls each of which stored its item, a wallet address that occurs in
  the sequence has exactly one row, and the row holds the values that the most recent call
  for that address built, as the columns store them: a second link replaces the first.
  That the item was stored is more than that the call succeeded: a call returns its
  account data also when the database refuses the write, and then leaves the table as it
  was.
\<close>

theorem one_bank_link_per_wallet:
  assumes "table_ok db"
  shows "length (filter (\<lambda>r. wallet_address r = w) (plaid_items (complete_links cs db))) \<le> 1
       \<and> (links_stored cs db \<and> filter (\<lambda>c. call_walletAddress c = w) cs \<noteq> [] \<longrightarrow>
            (\<exists>r v x.
               filter (\<lambda>r. wallet_address r = w) (plaid_items (complete_links cs db)) = [r]
               \<and> link_values (call_env (last (filter (\<lambda>c. call_walletAddress c = w) cs)))
                     (call_publicToken (last (filter (\<lambda>c. call_walletAddress c = w) cs))) w
                   = Inr (v, x)
               \<and> stored_values v = Inr (plaid_item_values.truncate r)))"
proof -
  have latest: "table_ok db \<Longrightarrow> links_stored cs db \<Longrightarrow>
      filter (\<lambda>c. call_walletAddress c = w) cs \<noteq> [] \<Longrightarrow>
      \<exists>r v x.
         filter (\<lambda>r. wallet_address r = w) (plaid_items (complete_links cs db)) = [r]
         \<and> link_values (call_env (last (filter (\<lambda>c. call_walletAddress c = w) cs)))
               (call_publicToken (last (filter (\<lambda>c. call_walletAddress c = w) cs))) w
             = Inr (v, x)
         \<and> stored_values v = Inr (plaid_item_values.truncate r)"
  proof (induction cs arbitrary: db)
    case Nil
    then show ?case by simp
  next
    case (Cons c cs)
    from links_stored_Cons [OF Cons.prems(2)]
    obtain v x db1 where lv: "link_values (call_env c) (call_publicToken c) (call_walletAddress c) = Inr (v, x)"
      and st: "storePlaidItem (call_env c) db v = Inr db1"
      and rest: "links_stored cs db1"
      and run: "complete_links (c # cs) db = complete_links cs db1"
      by (elim exE conjE) (rule that)
    have wv: "wallet_address v = call_walletAddress c" by (rule link_values_wallet [OF lv])
    from storePlaidItem_stored [OF Cons.prems(1) st]
    obtain r v' where ok1: "table_ok db1"
      and sv: "stored_values v = Inr v'"
      and one: "filter (\<lambda>r. wallet_address r = wallet_address v) (plaid_items db1) = [r]"
      and tr: "plaid_item_values.truncate r = v'"
      by (elim exE conjE) (rule that)
    show ?case
    proof (cases "filter (\<lambda>c. call_walletAddress c = w) cs = []")
      case False
      then have "last (filter (\<lambda>c. call_walletAddress c = w) (c # cs))
                   = last (filter (\<lambda>c. call_walletAddress c = w) cs)"
        by simp
      with Cons.IH [OF ok1 rest False] run show ?thesis by simp
    next
      case True
      with Cons.prems(3) have cw: "call_walletAddress c = w" by (auto split: if_splits)
      with True have l: "last (filter (\<lambda>c. call_walletAddress c = w) (c # cs)) = c" by simp
      from links_frame [OF ok1 rest True] one wv cw run
      have "filter (\<lambda>r. wallet_address r = w) (plaid_items (complete_links (c # cs) db)) = [r]"
        by simp
      moreover from lv cw l
      have "link_values (call_env (last (filter (\<lambda>c. call_walletAddress c = w) (c # cs))))
              (call_publicToken (last (filter (\<lambda>c. call_walletAddress c = w) (c # cs)))) w
            = Inr (v, x)"
        by simp
      moreover from sv tr have "stored_values v = Inr (plaid_item_values.truncate r)" by simp
      ultimately show ?thesis by blast
    qed
  qed
  from table_ok_at_most_one [OF complete_links_table_ok [OF assms]] latest [OF assms]
  show ?thesis by blast
qed


lemma table_ok_empty: "table_ok empty_database"
  by (simp add: table_ok_def empty_database_def)

lemma sample_link_values:
  "link_values sample_env ''public-sandbox-1'' sample_wallet =
     Inr (plaid_item_values.truncate sample_row,
          \<lparr>itemId = ''item-1'', accessToken = ''access-sandbox-1'',
           x_institutionName = ''First Platypus Bank'', x_accountName = ''Plaid Checking'',
           x_accountMask = ''0000'', x_currentBalance = 110, x_availableBalance = 100\<rparr>)"
  by (simp add: link_values_def sample_env_def sample_plaid_def truthy_string_def
        find_account_def plaidItem_def or_null_def or_default_def truthy_number_def
        sample_row_def plaid_item_values.truncate_def Let_def)

lemma sample_store:
  "storePlaidItem sample_env empty_database (plaid_item_values.truncate sample_row)
     = Inr sample_linked"
  by (simp add: storePlaidItem_def select_plaid_items_by_wallet_def insert_plaid_item_def
        stored_values_def decimal_12_2_opt_def decimal_12_2_110 decimal_12_2_100
        sample_env_def empty_database_def sample_linked_def sample_row_def
        plaid_item_values.truncate_def plaid_item_values.extend_def)

lemma sample_relink_values:
  "link_values sample_relink_env ''public-sandbox-2'' sample_wallet =
     Inr (plaid_item_values.truncate sample_relinked_row,
          \<lparr>itemId = ''item-2'', accessToken = ''access-sandbox-2'',
           x_institutionName = ''First Platypus Bank'', x_accountName = ''Plaid Checking'',
           x_accountMask = ''0000'', x_currentBalance = 250, x_availableBalance = 200\<rparr>)"
  by (simp add: link_values_def sample_relink_env_def sample_plaid_def truthy_string_def
        find_account_def plaidItem_def or_null_def or_default_def truthy_number_def
        sample_relinked_row_def plaid_item_values.truncate_def Let_def)

lemma decimal_12_2_250: "decimal_12_2 250 = Inr 250"
  using decimal_12_2_int [of 250] by simp

lemma decimal_12_2_200: "decimal_12_2 200 = Inr 200"
  using decimal_12_2_int [of 200] by simp

lemma sample_restore:
  "storePlaidItem sample_relink_env sample_linked (plaid_item_values.truncate sample_relinked_row)
     = Inr (sample_linked\<lparr>plaid_items := [sample_relinked_row]\<rparr>)"
  by (simp add: storePlaidItem_def select_plaid_items_by_wallet_def update_plaid_item_def
        stored_values_def decimal_12_2_opt_def decimal_12_2_250 decimal_12_2_200
        sample_relink_env_def sample_linked_def sample_row_def sample_relinked_row_def
        plaid_item_values.truncate_def set_values_def)

lemma sample_calls_stored: "links_stored sample_calls empty_database"
  by (simp add: sample_calls_def sample_link_values sample_store sample_relink_values
        sample_restore)

lemma sample_calls_result:
  "plaid_items (complete_links sample_calls empty_database) = [sample_relinked_row]"
  by (simp add: sample_calls_def exchangePublicToken_def sample_link_values sample_store
        sample_relink_values sample_restore)

theorem one_bank_link_witness:
  "table_ok empty_database
   \<and> links_stored sample_calls empty_database
   \<and> filter (\<lambda>c. call_walletAddress c = sample_wallet) sample_calls = sample_calls
   \<and> plaid_items (complete_links sample_calls empty_database) = [sample_relinked_row]
   \<and> (\<exists>r v x.
         filter (\<lambda>r. wallet_address r = sample_wallet)
           (plaid_items (complete_links sample_calls empty_database)) = [r]
         \<and> link_values sample_relink_env ''public-sandbox-2'' sample_wallet = Inr (v, x)
         \<and> stored_values v = Inr (plaid_item_values.truncate r))"
proof -
  have f: "filter (\<lambda>c. call_walletAddress c = sample_wallet) sample_calls = sample_calls"
    by (simp add: sample_calls_def)
  have l: "last sample_calls =
             \<lparr>call_env = sample_relink_env, call_publicToken = ''public-sandbox-2'',
              call_walletAddress = sample_wallet\<rparr>"
    by (simp add: sample_calls_def)
  have n: "sample_calls \<noteq> []" by (simp add: sample_calls_def)
  from one_bank_link_per_wallet [OF table_ok_empty, of sample_wallet sample_calls]
  show ?thesis
    using table_ok_empty sample_calls_stored sample_calls_result f l n by simp
qed

text \<open>
  A call whose database write is refused logs the failure and returns the account data all
  the same. The first link of a wallet then succeeds and leaves the wallet without a row.
\<close>

theorem link_returned_without_row:
  "exchangePublicToken (sample_env\<lparr>db_write_ok := False\<rparr>) ''public-sandbox-1'' sample_wallet
     empty_database
   = (empty_database,
      Inr \<lparr>itemId = ''item-1'', accessToken = ''access-sandbox-1'',
           x_institutionName = ''First Platypus Bank'', x_accountName = ''Plaid Checking'',
           x_accountMask = ''0000'', x_currentBalance = 110, x_availableBalance = 100\<rparr>)
   \<and> plaid_items empty_database = []"
proof -
  have "link_values (sample_env\<lparr>db_write_ok := False\<rparr>) ''public-sandbox-1'' sample_wallet
          = link_values sample_env ''public-sandbox-1'' sample_wallet"
    by (simp add: link_values_def sample_env_def sample_plaid_def truthy_string_def
          find_account_def Let_def)
  moreover have "storePlaidItem (sample_env\<lparr>db_write_ok := False\<rparr>) empty_database
                   (plaid_item_values.truncate sample_row) = Inl DatabaseError"
    by (simp add: storePlaidItem_def select_plaid_items_by_wallet_def insert_plaid_item_def
          sample_env_def empty_database_def)
  ultimately show ?thesis
    by (simp add: exchangePublicToken_def sample_link_values empty_database_def)
qed

text \<open>
  In general a call whose write is refused returns the account data and leaves the table
  untouched; a second link that is refused so returns the new balances while the row
  still holds the first item.
\<close>

lemma exchangePublicToken_not_stored:
  "link_values e publicToken w = Inr (v, x) \<Longrightarrow> storePlaidItem e db v = Inl dbError \<Longrightarrow>
   exchangePublicToken e publicToken w db = (db, Inr x)"
  by (simp add: exchangePublicToken_def)

lemma relink_returned_with_first_row:
  "exchangePublicToken (sample_relink_env\<lparr>db_write_ok := False\<rparr>) ''public-sandbox-2''
     sample_wallet sample_linked
   = (sample_linked,
      Inr \<lparr>itemId = ''item-2'', accessToken = ''access-sandbox-2'',
           x_institutionName = ''First Platypus Bank'', x_accountName = ''Plaid Checking'',
           x_accountMask = ''0000'', x_currentBalance = 250, x_availableBalance = 200\<rparr>)
   \<and> plaid_items sample_linked = [sample_row]"
proof -
  have "link_values (sample_relink_env\<lparr>db_write_ok := False\<rparr>) ''public-sandbox-2'' sample_wallet
          = link_values sample_relink_env ''public-sandbox-2'' sample_wallet"
    by (simp add: link_values_def sample_relink_env_def sample_plaid_def truthy_string_def
          find_account_def Let_def)
  moreover have "storePlaidItem (sample_relink_env\<lparr>db_write_ok := False\<rparr>) sample_linked
                   (plaid_item_values.truncate sample_relinked_row) = Inl DatabaseError"
    by (simp add: storePlaidItem_def select_plaid_items_by_wallet_def update_plaid_item_def
          insert_plaid_item_def sample_relink_env_def sample_linked_def sample_row_def
          sample_relinked_row_def plaid_item_values.truncate_def)
  ultimately
  have "exchangePublicToken (sample_relink_env\<lparr>db_write_ok := False\<rparr>) ''public-sandbox-2''
          sample_wallet sample_linked
        = (sample_linked,
           Inr \<lparr>itemId = ''item-2'', accessToken = ''access-sandbox-2'',
                x_institutionName = ''First Platypus Bank'', x_accountName = ''Plaid Checking'',
                x_accountMask = ''0000'', x_currentBalance = 250, x_availableBalance = 200\<rparr>)"
    by (simp add: exchangePublicToken_def sample_relink_values)
  then show ?thesis by (simp add: sample_linked_def)
qed

end
